theory Spec2Isabelle
  imports Complex_Main
begin

section \<open>The DQN training step of \<^verbatim>\<open>ml/rl/training/_dqn_trainer.py\<close>\<close>

text \<open>
  A shallow embedding of the class \<^verbatim>\<open>_DQNTrainer\<close>: its constructor, \<^verbatim>\<open>train\<close> and
  \<^verbatim>\<open>calculate_cpes\<close>. Tensors are lists of rows; their entries are real numbers, so
  every equation below is one of exact arithmetic: rounding, signed zeros, infinities
  and NaN of the float32 tensors are outside the model. Everything that raises in
  Python is a value \<open>Inl e\<close> of the result.
\<close>

subsection \<open>Errors as values\<close>

datatype error =
    AssertionError string
  | ValueError
  | IndexError
  | RuntimeError
  | AttributeError
  | PreconditionViolation

definition ebind :: "error + 'a \<Rightarrow> ('a \<Rightarrow> error + 'b) \<Rightarrow> error + 'b" where
  "ebind m f = (case m of Inl e \<Rightarrow> Inl e | Inr x \<Rightarrow> f x)"

text \<open>Running \<open>f\<close> over a list stops at the first element that raises.\<close>

fun emap :: "('a \<Rightarrow> error + 'b) \<Rightarrow> 'a list \<Rightarrow> error + 'b list" where
  "emap f [] = Inr []"
| "emap f (x # xs) = ebind (f x) (\<lambda>y. ebind (emap f xs) (\<lambda>ys. Inr (y # ys)))"

subsection \<open>Tensors and the torch operations the trainer calls\<close>

type_synonym tensor = "real list list"
type_synonym ltensor = "int list list"
type_synonym net_params = "real list"
type_synonym opt_state = "real list"

text \<open>
  Elementwise operations broadcast: along a dimension the two sizes are equal or one of
  them is 1; any other pair of sizes raises a RuntimeError in torch. A tensor is the
  list of its rows, so the width of a tensor with no rows is not represented.
\<close>

definition bcast_row :: "('a \<Rightarrow> 'b \<Rightarrow> 'c) \<Rightarrow> 'a list \<Rightarrow> 'b list \<Rightarrow> error + 'c list" where
  "bcast_row f a b =
     (if length a = length b then Inr (map2 f a b)
      else if length a = 1 then Inr (map (f (hd a)) b)
      else if length b = 1 then Inr (map (\<lambda>x. f x (hd b)) a)
      else Inl RuntimeError)"

definition bcast :: "('a \<Rightarrow> 'b \<Rightarrow> 'c) \<Rightarrow> 'a list list \<Rightarrow> 'b list list \<Rightarrow> error + 'c list list" where
  "bcast f A B =
     (if length A = length B then emap (\<lambda>(a, b). bcast_row f a b) (zip A B)
      else if length A = 1 then emap (bcast_row f (hd A)) B
      else if length B = 1 then emap (\<lambda>a. bcast_row f a (hd B)) A
      else Inl RuntimeError)"

text \<open>\<^verbatim>\<open>torch.full_like(x, v)\<close>, \<^verbatim>\<open>x.float()\<close> on a boolean tensor, and
  \<^verbatim>\<open>torch.sum(x, 1, keepdim=True)\<close>.\<close>

definition full_like :: "'a list list \<Rightarrow> 'b \<Rightarrow> 'b list list" where
  "full_like x v = map (map (\<lambda>_. v)) x"

definition to_float :: "bool list list \<Rightarrow> tensor" where
  "to_float x = map (map (\<lambda>b. if b then 1 else 0)) x"

definition sum_dim1 :: "tensor \<Rightarrow> tensor" where
  "sum_dim1 x = map (\<lambda>r. [sum_list r]) x"

text \<open>\<^verbatim>\<open>x.argmax(dim=1, keepdim=True)\<close>: per row the first index of a largest entry;
  a row of width 0 raises.\<close>

definition argmax_list :: "real list \<Rightarrow> nat option" where
  "argmax_list xs =
     List.find (\<lambda>j. list_all (\<lambda>k. xs ! k \<le> xs ! j) [0..<length xs]) [0..<length xs]"

definition argmax_dim1 :: "tensor \<Rightarrow> error + ltensor" where
  "argmax_dim1 x =
     emap (\<lambda>r. case argmax_list r of None \<Rightarrow> Inl IndexError | Some j \<Rightarrow> Inr [int j]) x"

text \<open>\<^verbatim>\<open>x.gather(1, index)\<close>: \<open>out[i][j] = x[i][index[i][j]]\<close>. The index may have fewer
  rows than \<open>x\<close>, never more; an index outside \<open>[0, width)\<close> raises.\<close>

definition gather_row :: "'a list \<Rightarrow> int list \<Rightarrow> error + 'a list" where
  "gather_row r ix =
     emap (\<lambda>k. if 0 \<le> k \<and> k < int (length r) then Inr (r ! nat k) else Inl IndexError) ix"

definition gather_dim1 :: "'a list list \<Rightarrow> ltensor \<Rightarrow> error + 'a list list" where
  "gather_dim1 x index =
     (if length index \<le> length x
      then emap (\<lambda>(r, ix). gather_row r ix) (zip (take (length index) x) index)
      else Inl RuntimeError)"

text \<open>\<^verbatim>\<open>torch.cat((a, b), dim=1)\<close>: the row counts must agree.\<close>

definition cat_dim1 :: "'a list list \<Rightarrow> 'a list list \<Rightarrow> error + 'a list list" where
  "cat_dim1 a b = (if length a = length b then Inr (map2 (@) a b) else Inl RuntimeError)"

text \<open>\<^verbatim>\<open>torch.arange(0, stop, step)\<close> with \<open>stop = m * step\<close>, as the constructor calls
  it; a step of 0 raises.\<close>

definition arange_step :: "nat \<Rightarrow> nat \<Rightarrow> error + int list" where
  "arange_step m step =
     (if step = 0 then Inl RuntimeError else Inr (map (\<lambda>k. int (k * step)) [0..<m]))"

text \<open>\<^verbatim>\<open>x[:, torch.arange(lo, lo + n)]\<close>: the columns \<open>lo, ..., lo + n - 1\<close> of every row.\<close>

definition select_columns :: "'a list list \<Rightarrow> int \<Rightarrow> nat \<Rightarrow> error + 'a list list" where
  "select_columns x lo n = emap (\<lambda>r. gather_row r (map (\<lambda>k. lo + int k) [0..<n])) x"

text \<open>\<^verbatim>\<open>list.index(k)\<close>: the first position of \<open>k\<close>; Python raises ValueError when there
  is none.\<close>

fun index_of :: "'a list \<Rightarrow> 'a \<Rightarrow> nat option" where
  "index_of [] k = None"
| "index_of (x # xs) k = (if x = k then Some 0 else map_option Suc (index_of xs k))"

subsection \<open>The data model\<close>

text \<open>A discrete-SARSA training batch: \<^verbatim>\<open>training_input\<close> and \<^verbatim>\<open>extras\<close> in one record.\<close>

record training_batch =
  state :: tensor
  action :: tensor
  reward :: tensor
  next_state :: tensor
  next_action :: tensor
  not_terminal :: "bool list list"
  possible_actions_mask :: tensor
  possible_next_actions_mask :: tensor
  action_probability :: tensor
  metrics :: "tensor option"

text \<open>\<^verbatim>\<open>train\<close> accepts a \<^verbatim>\<open>TrainingDataPage\<close> or a batch (\<^verbatim>\<open>isinstance\<close>).\<close>

datatype 'page train_arg = Page 'page | Batch training_batch

text \<open>The fields of \<^verbatim>\<open>DiscreteActionModelParameters\<close> the constructor reads.\<close>

record parameters =
  rainbow_double_q_learning :: bool
  training_minibatch_size :: int
  training_learning_rate :: real
  training_l2_decay :: real
  parameters_actions :: "string list option"
  rl_reward_boost :: "(string \<times> real) list option"

text \<open>
  The attributes \<^verbatim>\<open>DQNTrainerBase.__init__\<close> leaves on the object. The base class is not
  part of the sources, so the constructor below takes them as an argument.
\<close>

record base_trainer =
  minibatch :: int
  reward_burnin :: int
  gamma :: real
  tau :: real
  rl_temperature :: real
  maxq_learning :: bool
  use_seq_num_diff_as_time_diff :: bool
  calc_cpe_in_training :: bool
  metrics_to_score :: "string list"

text \<open>The attributes that exist only when CPE is computed in training.\<close>

record cpe_attrs =
  reward_network :: net_params
  reward_network_optimizer :: opt_state
  q_network_cpe :: net_params
  q_network_cpe_target :: net_params
  q_network_cpe_optimizer :: opt_state
  reward_idx_offsets :: "int list"

record trainer = base_trainer +
  double_q_learning :: bool
  minibatch_size :: int
  actions :: "string list"
  q_network :: net_params
  q_network_target :: net_params
  q_network_optimizer :: opt_state
  cpe :: "cpe_attrs option"
  reward_boosts :: tensor
  all_action_scores :: "tensor option"
  loss :: "real option"

text \<open>What one call of \<^verbatim>\<open>train\<close> hands to \<^verbatim>\<open>loss_reporter.report\<close> (the two arguments
  that are always \<^verbatim>\<open>None\<close> are left out).\<close>

record report =
  td_loss :: "real option"
  reward_loss :: "real option"
  logged_actions :: ltensor
  logged_propensities :: tensor
  logged_rewards :: tensor
  model_propensities :: "tensor option"
  model_rewards :: "tensor option"
  model_values :: "tensor option"
  model_action_idxs :: ltensor

text \<open>
  The collaborators the trainer treats as black boxes. A network is its parameter
  vector; \<open>q_forward\<close> is the architecture shared by the online and the target value
  network, \<open>reward_forward\<close> and \<open>cpe_forward\<close> those of the reward network and of the
  CPE network pair. \<open>q_backward_step\<close> is \<^verbatim>\<open>zero_grad(); loss.backward(); step()\<close> for the
  loss \<^verbatim>\<open>q_network_loss(sum(q_network(state) * action), target)\<close>: it reads the
  parameters, the optimizer state and the three tensors the loss is built from, and
  returns the new parameters and optimizer state; the optional gradient hook of line 148
  is part of it. The other two steps are alike, with the gather index in place of the
  action. \<open>optimizer_func\<close> builds an optimizer state from a parameter vector, a learning
  rate and a weight decay (0 where the constructor passes none). Forward passes and loss
  functions are taken as total.
\<close>

record 'page collab =
  q_forward :: "net_params \<Rightarrow> tensor \<Rightarrow> tensor"
  reward_forward :: "net_params \<Rightarrow> tensor \<Rightarrow> tensor"
  cpe_forward :: "net_params \<Rightarrow> tensor \<Rightarrow> tensor"
  q_network_loss :: "tensor \<Rightarrow> tensor \<Rightarrow> real"
  mse_loss :: "tensor \<Rightarrow> tensor \<Rightarrow> real"
  optimizer_func :: "net_params \<Rightarrow> real \<Rightarrow> real \<Rightarrow> opt_state"
  q_backward_step :: "net_params \<Rightarrow> opt_state \<Rightarrow> tensor \<Rightarrow> tensor \<Rightarrow> tensor \<Rightarrow> net_params \<times> opt_state"
  reward_backward_step :: "net_params \<Rightarrow> opt_state \<Rightarrow> tensor \<Rightarrow> ltensor \<Rightarrow> tensor \<Rightarrow> net_params \<times> opt_state"
  cpe_backward_step :: "net_params \<Rightarrow> opt_state \<Rightarrow> tensor \<Rightarrow> ltensor \<Rightarrow> tensor \<Rightarrow> net_params \<times> opt_state"
  as_discrete_sarsa_training_batch :: "'page \<Rightarrow> training_batch"

subsection \<open>The constructor\<close>

text \<open>The loop over \<^verbatim>\<open>parameters.rl.reward_boost.keys()\<close>; the dictionary is the list of
  its items, in iteration order.\<close>

fun set_reward_boosts :: "string list \<Rightarrow> (string \<times> real) list \<Rightarrow> real list \<Rightarrow> error + real list" where
  "set_reward_boosts acts [] rb = Inr rb"
| "set_reward_boosts acts ((k, v) # kvs) rb =
     (case index_of acts k of
        None \<Rightarrow> Inl ValueError
      | Some i \<Rightarrow> set_reward_boosts acts kvs (rb[i := v]))"

text \<open>Lines 53 to 70: the block that runs only when CPE is computed in training.\<close>

definition init_cpe ::
  "'page collab \<Rightarrow> base_trainer \<Rightarrow> parameters \<Rightarrow> nat \<Rightarrow> net_params option \<Rightarrow>
   net_params option \<Rightarrow> net_params option \<Rightarrow> error + cpe_attrs option" where
  "init_cpe env base params num_actions reward_net q_cpe q_cpe_target =
     (if calc_cpe_in_training base then
        (case reward_net of
           None \<Rightarrow> Inl (AssertionError ''reward_network is required for CPE'')
         | Some rn \<Rightarrow>
            (case (q_cpe, q_cpe_target) of
               (Some qc, Some qct) \<Rightarrow>
                 ebind (arange_step (length (metrics_to_score base)) num_actions) (\<lambda>offs.
                 Inr (Some \<lparr> reward_network = rn,
                   reward_network_optimizer =
                     optimizer_func env rn (training_learning_rate params) 0,
                   q_network_cpe = qc,
                   q_network_cpe_target = qct,
                   q_network_cpe_optimizer =
                     optimizer_func env qc (training_learning_rate params) 0,
                   reward_idx_offsets = offs \<rparr>))
             | _ \<Rightarrow> Inl (AssertionError
                 ''q_network_cpe and q_network_cpe_target are required for CPE'')))
      else Inr None)"

text \<open>\<^verbatim>\<open>__init__\<close>; \<open>base\<close> holds what the constructor of the base class has set.\<close>

definition init ::
  "'page collab \<Rightarrow> base_trainer \<Rightarrow> net_params \<Rightarrow> net_params \<Rightarrow> net_params option \<Rightarrow>
   parameters \<Rightarrow> net_params option \<Rightarrow> net_params option \<Rightarrow> error + trainer" where
  "init env base q_net q_net_target reward_net params q_cpe q_cpe_target =
     (let acts = (case parameters_actions params of None \<Rightarrow> [] | Some a \<Rightarrow> a) in
      ebind (init_cpe env base params (length acts) reward_net q_cpe q_cpe_target) (\<lambda>c.
      ebind (case rl_reward_boost params of
               None \<Rightarrow> Inr (replicate (length acts) 0)
             | Some rb \<Rightarrow> set_reward_boosts acts rb (replicate (length acts) 0)) (\<lambda>boosts.
      Inr (base_trainer.extend base
        (trainer.fields
          (rainbow_double_q_learning params)
          (training_minibatch_size params)
          acts
          q_net
          q_net_target
          (optimizer_func env q_net (training_learning_rate params) (training_l2_decay params))
          c
          [boosts]
          None
          None)))))"

definition num_actions :: "trainer \<Rightarrow> nat" where
  "num_actions t = length (actions t)"

subsection \<open>Methods inherited from the base classes\<close>

text \<open>
  Modelled from the spec: \<^verbatim>\<open>boost_rewards\<close> of \<^verbatim>\<open>DQNTrainerBase\<close>, which is not part of
  the sources. Section 4.1: given the raw per-sample reward and the one-hot action
  taken, it returns \<open>reward + boost[action]\<close> elementwise; the boost of the action taken
  is read off as the inner product of the action row with the boost vector.
\<close>

definition boost_rewards :: "trainer \<Rightarrow> tensor \<Rightarrow> tensor \<Rightarrow> error + tensor" where
  "boost_rewards t rewards acts =
     ebind (bcast (*) acts (reward_boosts t)) (\<lambda>ab. bcast (+) rewards (sum_dim1 ab))"

text \<open>
  Modelled from the spec: \<^verbatim>\<open>get_max_q_values_with_target\<close> of \<^verbatim>\<open>DQNTrainerBase\<close>, which
  is not part of the sources. Section 4.2, max-action mode: the values are restricted
  to the entries the validity mask allows, the maximizing index is picked (from the
  online estimates under double-Q, from the target estimates otherwise), and the value
  at that index is read from the target network's estimates. A row with no valid action
  and mismatched widths are precondition violations.
\<close>

definition masked_argmax :: "real list \<Rightarrow> real list \<Rightarrow> nat option" where
  "masked_argmax q msk =
     List.find
       (\<lambda>j. msk ! j \<noteq> 0 \<and> list_all (\<lambda>k. msk ! k = 0 \<or> q ! k \<le> q ! j) [0..<length msk])
       [0..<length msk]"

definition select_row :: "bool \<Rightarrow> real list \<Rightarrow> real list \<Rightarrow> real list \<Rightarrow> error + (real \<times> int)" where
  "select_row dq q qt msk =
     (if length q = length msk \<and> length qt = length msk then
        (case masked_argmax (if dq then q else qt) msk of
           None \<Rightarrow> Inl PreconditionViolation
         | Some j \<Rightarrow> Inr (qt ! j, int j))
      else Inl PreconditionViolation)"

definition get_max_q_values_with_target ::
  "trainer \<Rightarrow> tensor \<Rightarrow> tensor \<Rightarrow> tensor \<Rightarrow> error + (tensor \<times> ltensor)" where
  "get_max_q_values_with_target t q_values q_values_target msk =
     (if length q_values = length msk \<and> length q_values_target = length msk then
        ebind (emap (\<lambda>(q, qt, m). select_row (double_q_learning t) q qt m)
                 (zip q_values (zip q_values_target msk)))
          (\<lambda>rs. Inr (map (\<lambda>r. [fst r]) rs, map (\<lambda>r. [snd r]) rs))
      else Inl PreconditionViolation)"

text \<open>
  Modelled from the spec: \<^verbatim>\<open>get_max_q_values\<close> of \<^verbatim>\<open>DQNTrainerBase\<close>, which is not part
  of the sources. Section 8: with the online and the target value vectors set equal,
  the max-action selection is the plain max-Q selection.
\<close>

definition get_max_q_values :: "trainer \<Rightarrow> tensor \<Rightarrow> tensor \<Rightarrow> error + (tensor \<times> ltensor)" where
  "get_max_q_values t q_values msk = get_max_q_values_with_target t q_values q_values msk"

text \<open>
  Modelled from the spec: \<^verbatim>\<open>_soft_update\<close> of the base trainer, which is not part of the
  sources. Section 4.4: \<open>target_param = target_param * (1 - tau) + online_param * tau\<close>,
  parameter by parameter; the result is the new parameter vector of the target network.
\<close>

definition soft_update :: "net_params \<Rightarrow> net_params \<Rightarrow> real \<Rightarrow> net_params" where
  "soft_update network target_network tau' =
     map2 (\<lambda>target_param online_param. target_param * (1 - tau') + online_param * tau')
       target_network network"

text \<open>
  Modelled from the spec: \<^verbatim>\<open>masked_softmax\<close> of \<^verbatim>\<open>ml.rl.caffe_utils\<close>, which is not part of
  the sources. Sections 4.5 and 6: given a value vector, a validity mask and a
  temperature, a temperature-scaled normalized exponential over the valid entries only,
  with zero probability mass on invalid entries. A row with no valid action and
  mismatched widths are precondition violations (section 7).
\<close>

definition softmax_row :: "real \<Rightarrow> real list \<Rightarrow> real list \<Rightarrow> error + real list" where
  "softmax_row temperature x msk =
     (if length x \<noteq> length msk \<or> list_all (\<lambda>m. m = 0) msk then Inl PreconditionViolation
      else
        (let e = map2 (\<lambda>v m. if m = 0 then 0 else exp (v / temperature)) x msk
         in Inr (map (\<lambda>a. a / sum_list e) e)))"

definition masked_softmax :: "tensor \<Rightarrow> tensor \<Rightarrow> real \<Rightarrow> error + tensor" where
  "masked_softmax x msk temperature =
     (if length x = length msk
      then emap (\<lambda>(r, m). softmax_row temperature r m) (zip x msk)
      else Inl PreconditionViolation)"

subsection \<open>\<^verbatim>\<open>calculate_cpes\<close>\<close>

text \<open>Lines 225 to 235: the per-metric target of the CPE value model.\<close>

definition target_metric_q_values ::
  "'page collab \<Rightarrow> trainer \<Rightarrow> cpe_attrs \<Rightarrow> tensor \<Rightarrow> tensor \<Rightarrow> ltensor \<Rightarrow> tensor \<Rightarrow> tensor \<Rightarrow>
   error + tensor" where
  "target_metric_q_values env t c states metrics_reward_concat_real_vals max_q_action_idxs
       discount_tensor not_done_mask =
     (let metric_target_q_values = cpe_forward env (q_network_cpe_target c) states in
      ebind (bcast (+) [reward_idx_offsets c] max_q_action_idxs) (\<lambda>ix.
      ebind (gather_dim1 metric_target_q_values ix) (\<lambda>max_q_values_metrics.
      ebind (bcast (*) max_q_values_metrics not_done_mask) (\<lambda>filtered_max_q_values_metrics.
      if minibatch t < reward_burnin t then Inr metrics_reward_concat_real_vals
      else ebind (bcast (*) discount_tensor filtered_max_q_values_metrics) (\<lambda>d.
           bcast (+) metrics_reward_concat_real_vals d)))))"

text \<open>The burn-in rule of both soft updates (lines 152 to 157 and 243 to 248).\<close>

definition soft_update_rate :: "trainer \<Rightarrow> real" where
  "soft_update_rate t = (if minibatch t < reward_burnin t then 1 else tau t)"

text \<open>
  \<^verbatim>\<open>calculate_cpes\<close>. The two losses that are only differentiated
  (\<^verbatim>\<open>reward_loss.backward()\<close>, \<^verbatim>\<open>metric_q_value_loss.backward()\<close>) live inside
  \<open>reward_backward_step\<close> and \<open>cpe_backward_step\<close>; the reward loss is also returned.
\<close>

definition calculate_cpes ::
  "'page collab \<Rightarrow> trainer \<Rightarrow> training_batch \<Rightarrow> tensor \<Rightarrow> ltensor \<Rightarrow> ltensor \<Rightarrow> tensor \<Rightarrow> tensor \<Rightarrow>
   error + (trainer \<times> real option \<times> tensor option \<times> tensor option)" where
  "calculate_cpes env t b states logged_action_idxs max_q_action_idxs discount_tensor
       not_done_mask =
     (if \<not> calc_cpe_in_training t then Inr (t, None, None, None)
      else case cpe t of
        None \<Rightarrow> Inl AttributeError
      | Some c \<Rightarrow>
        ebind (case metrics b of
                 None \<Rightarrow> Inr (reward b)
               | Some m \<Rightarrow> cat_dim1 (reward b) m) (\<lambda>metrics_reward_concat_real_vals.
        let reward_estimates = reward_forward env (reward_network c) states in
        ebind (bcast (+) [reward_idx_offsets c] logged_action_idxs) (\<lambda>logged_ix.
        ebind (gather_dim1 reward_estimates logged_ix) (\<lambda>reward_estimates_for_logged_actions.
        let reward_loss' =
              mse_loss env reward_estimates_for_logged_actions metrics_reward_concat_real_vals;
            (rp, ro) = reward_backward_step env (reward_network c)
              (reward_network_optimizer c) states logged_ix metrics_reward_concat_real_vals;
            c1 = c\<lparr>reward_network := rp, reward_network_optimizer := ro\<rparr>
        in
        ebind (gather_dim1 (cpe_forward env (q_network_cpe c1) states) logged_ix)
          (\<lambda>metric_q_values.
        ebind (target_metric_q_values env t c1 states metrics_reward_concat_real_vals
                 max_q_action_idxs discount_tensor not_done_mask) (\<lambda>tgt.
        let (cp, co) = cpe_backward_step env (q_network_cpe c1)
              (q_network_cpe_optimizer c1) states logged_ix tgt;
            c2 = c1\<lparr>q_network_cpe := cp, q_network_cpe_optimizer := co\<rparr>;
            c3 = c2\<lparr>q_network_cpe_target :=
              soft_update (q_network_cpe c2) (q_network_cpe_target c2) (soft_update_rate t)\<rparr>
        in
        case all_action_scores t of
          None \<Rightarrow> Inl AttributeError
        | Some scores \<Rightarrow>
          ebind (masked_softmax scores
                   (if maxq_learning t then possible_actions_mask b else action b)
                   (rl_temperature t)) (\<lambda>model_propensities'.
          ebind (case reward_idx_offsets c3 of
                   [] \<Rightarrow> Inl IndexError
                 | o0 # _ \<Rightarrow> select_columns reward_estimates o0 (num_actions t))
            (\<lambda>model_rewards'.
          Inr (t\<lparr>cpe := Some c3\<rparr>,
               Some reward_loss', Some model_rewards', Some model_propensities')))))))))"

subsection \<open>\<^verbatim>\<open>train\<close>\<close>

definition get_detached_q_values :: "'page collab \<Rightarrow> trainer \<Rightarrow> tensor \<Rightarrow> tensor \<times> tensor" where
  "get_detached_q_values env t st =
     (q_forward env (q_network t) st, q_forward env (q_network_target t) st)"

text \<open>Lines 113 to 128: both modes go through \<^verbatim>\<open>get_max_q_values_with_target\<close>; in SARSA
  mode the next action stands where the validity mask stands in max-action mode.\<close>

definition next_q_values ::
  "'page collab \<Rightarrow> trainer \<Rightarrow> training_batch \<Rightarrow> error + (tensor \<times> ltensor)" where
  "next_q_values env t b =
     (let (all_next_q_values, all_next_q_values_target) =
            get_detached_q_values env t (next_state b)
      in if maxq_learning t
         then get_max_q_values_with_target t all_next_q_values all_next_q_values_target
                (possible_next_actions_mask b)
         else get_max_q_values_with_target t all_next_q_values all_next_q_values_target
                (next_action b))"

text \<open>Lines 130 to 135; \<open>t\<close> is the trainer after \<^verbatim>\<open>self.minibatch += 1\<close>.\<close>

definition target_q_values :: "trainer \<Rightarrow> tensor \<Rightarrow> tensor \<Rightarrow> tensor \<Rightarrow> tensor \<Rightarrow> error + tensor" where
  "target_q_values t rewards discount_tensor next_q not_done_mask =
     ebind (bcast (*) next_q not_done_mask) (\<lambda>filtered_next_q_vals.
     if minibatch t < reward_burnin t then Inr rewards
     else ebind (bcast (*) discount_tensor filtered_next_q_vals) (\<lambda>d. bcast (+) rewards d))"

text \<open>Lines 138 to 157: forward pass, loss, optimizer step and soft update of the
  primary network pair. The flag \<^verbatim>\<open>use_seq_num_diff_as_time_diff\<close> only logs a warning.\<close>

definition train_q_network ::
  "'page collab \<Rightarrow> trainer \<Rightarrow> training_batch \<Rightarrow> tensor \<Rightarrow> error + trainer" where
  "train_q_network env t b tgt =
     (let all_q_values = q_forward env (q_network t) (state b);
          t2 = t\<lparr>all_action_scores := Some all_q_values\<rparr>
      in
      ebind (bcast (*) all_q_values (action b)) (\<lambda>qa.
      let q_values = sum_dim1 qa;
          t3 = t2\<lparr>loss := Some (q_network_loss env q_values tgt)\<rparr>;
          (p, ost) = q_backward_step env (q_network t3) (q_network_optimizer t3)
            (state b) (action b) tgt;
          t4 = t3\<lparr>q_network := p, q_network_optimizer := ost\<rparr>
      in
      Inr (t4\<lparr>q_network_target :=
        soft_update (q_network t4) (q_network_target t4) (soft_update_rate t4)\<rparr>)))"

text \<open>\<^verbatim>\<open>train\<close>: it returns the trainer it leaves behind and what it reports.\<close>

definition train :: "'page collab \<Rightarrow> trainer \<Rightarrow> 'page train_arg \<Rightarrow> error + (trainer \<times> report)" where
  "train env t0 arg =
     (let b = (case arg of Page p \<Rightarrow> as_discrete_sarsa_training_batch env p | Batch b' \<Rightarrow> b') in
      ebind (boost_rewards t0 (reward b) (action b)) (\<lambda>boosted_rewards.
      let t1 = t0\<lparr>minibatch := minibatch t0 + 1\<rparr>;
          rewards = boosted_rewards;
          discount_tensor = full_like rewards (gamma t1);
          not_done_mask = to_float (not_terminal b)
      in
      ebind (next_q_values env t1 b) (\<lambda>(next_q, max_q_action_idxs).
      ebind (target_q_values t1 rewards discount_tensor next_q not_done_mask) (\<lambda>tgt.
      ebind (train_q_network env t1 b tgt) (\<lambda>t5.
      ebind (argmax_dim1 (action b)) (\<lambda>logged_action_idxs.
      ebind (calculate_cpes env t5 b (state b) logged_action_idxs max_q_action_idxs
               discount_tensor not_done_mask)
        (\<lambda>(t6, reward_loss', model_rewards', model_propensities').
      case all_action_scores t6 of
        None \<Rightarrow> Inl AttributeError
      | Some scores \<Rightarrow>
        ebind (get_max_q_values t6 scores
                 (if maxq_learning t6 then possible_actions_mask b else action b))
          (\<lambda>(_, idxs).
        Inr (t6,
          \<lparr> td_loss = loss t6,
            reward_loss = reward_loss',
            logged_actions = logged_action_idxs,
            logged_propensities = action_probability b,
            logged_rewards = rewards,
            model_propensities = model_propensities',
            model_rewards = model_rewards',
            model_values = all_action_scores t6,
            model_action_idxs = idxs \<rparr>)))))))))"

subsection \<open>Vocabulary of the claims\<close>

text \<open>A one-hot row of width \<open>n\<close> with its 1 at index \<open>j\<close>.\<close>

definition one_hot :: "nat \<Rightarrow> nat \<Rightarrow> real list" where
  "one_hot n j = (replicate n 0)[j := 1]"

text \<open>The inner product of two rows.\<close>

definition inner_product :: "real list \<Rightarrow> real list \<Rightarrow> real" where
  "inner_product x y = sum_list (map2 (*) x y)"

text \<open>The action set of the configuration: \<^verbatim>\<open>parameters.actions\<close>, or the empty list when it
  is \<^verbatim>\<open>None\<close> (line 33).\<close>

definition configured_actions :: "parameters \<Rightarrow> string list" where
  "configured_actions params = (case parameters_actions params of None \<Rightarrow> [] | Some a \<Rightarrow> a)"

text \<open>The boost the configuration gives an action: the entry of the \<^verbatim>\<open>reward_boost\<close>
  dictionary under its name, 0 when there is no dictionary or no such entry.\<close>

definition configured_boost :: "parameters \<Rightarrow> string \<Rightarrow> real" where
  "configured_boost params a =
     (case rl_reward_boost params of
        None \<Rightarrow> 0
      | Some rb \<Rightarrow> (case map_of rb a of None \<Rightarrow> 0 | Some v \<Rightarrow> v))"

text \<open>A Python dictionary holds every key once.\<close>

definition dict_keys_distinct :: "parameters \<Rightarrow> bool" where
  "dict_keys_distinct params =
     (case rl_reward_boost params of None \<Rightarrow> True | Some rb \<Rightarrow> distinct (map fst rb))"

text \<open>The two configuration errors of the constructor.\<close>

fun config_error :: "error \<Rightarrow> bool" where
  "config_error (AssertionError m) = True"
| "config_error ValueError = True"
| "config_error e = False"

text \<open>The validity mask of the propensities: \<^verbatim>\<open>possible_actions_mask\<close> in max-action
  mode, the one-hot action taken in on-policy mode (lines 252 to 254).\<close>

definition validity_mask :: "trainer \<Rightarrow> training_batch \<Rightarrow> tensor" where
  "validity_mask t b = (if maxq_learning t then possible_actions_mask b else action b)"

text \<open>The errors of the tensor operations and of violated preconditions.\<close>

fun tensor_error :: "error \<Rightarrow> bool" where
  "tensor_error IndexError = True"
| "tensor_error RuntimeError = True"
| "tensor_error PreconditionViolation = True"
| "tensor_error e = False"

text \<open>A constructed trainer that computes CPE has its CPE attributes.\<close>

definition cpe_attrs_present :: "trainer \<Rightarrow> bool" where
  "cpe_attrs_present t = (if calc_cpe_in_training t then cpe t \<noteq> None else True)"

subsection \<open>A concrete trainer\<close>

text \<open>
  A small instance for evaluating the definitions: three actions, one metric, value
  networks that return their parameter vector for every row (a bias-only layer), the
  mean squared error over all entries as both losses, plain gradient descent with rate 1
  on that error for the primary network, and a batch of two transitions, the second one
  terminal.
\<close>

definition example_forward :: "net_params \<Rightarrow> tensor \<Rightarrow> tensor" where
  "example_forward p s = map (\<lambda>_. p) s"

definition example_mse_loss :: "tensor \<Rightarrow> tensor \<Rightarrow> real" where
  "example_mse_loss x y =
     sum_list (map2 (\<lambda>r s. sum_list (map2 (\<lambda>u v. (u - v)\<^sup>2) r s)) x y) /
       real (sum_list (map length x))"

definition example_q_step ::
  "net_params \<Rightarrow> opt_state \<Rightarrow> tensor \<Rightarrow> tensor \<Rightarrow> tensor \<Rightarrow> net_params \<times> opt_state" where
  "example_q_step p ost s a tgt =
     (map (\<lambda>j. p ! j - (1 / real (length a)) *
        sum_list (map2 (\<lambda>ar tr. 2 * (sum_list (map2 (*) p ar) - hd tr) * ar ! j) a tgt))
        [0..<length p], ost)"

definition example_gather_step ::
  "net_params \<Rightarrow> opt_state \<Rightarrow> tensor \<Rightarrow> ltensor \<Rightarrow> tensor \<Rightarrow> net_params \<times> opt_state" where
  "example_gather_step p ost s ix tgt = (map (\<lambda>x. x + 1) p, ost)"

definition example_batch :: training_batch where
  "example_batch =
     \<lparr> state = [[0], [0]],
       action = [[0, 1, 0], [1, 0, 0]],
       reward = [[1], [1]],
       next_state = [[0], [0]],
       next_action = [[1, 0, 0], [0, 0, 1]],
       not_terminal = [[True], [False]],
       possible_actions_mask = [[1, 1, 0], [1, 1, 1]],
       possible_next_actions_mask = [[1, 1, 1], [0, 1, 1]],
       action_probability = [[1 / 2], [1 / 2]],
       metrics = None \<rparr>"

definition example_env :: "unit collab" where
  "example_env =
     \<lparr> q_forward = example_forward,
       reward_forward = example_forward,
       cpe_forward = example_forward,
       q_network_loss = example_mse_loss,
       mse_loss = example_mse_loss,
       optimizer_func = (\<lambda>p lr wd. []),
       q_backward_step = example_q_step,
       reward_backward_step = example_gather_step,
       cpe_backward_step = example_gather_step,
       as_discrete_sarsa_training_batch = (\<lambda>_. example_batch) \<rparr>"

definition example_base :: base_trainer where
  "example_base =
     \<lparr> minibatch = 0, reward_burnin = 0, gamma = 9 / 10, tau = 1 / 10, rl_temperature = 1,
       maxq_learning = True, use_seq_num_diff_as_time_diff = False,
       calc_cpe_in_training = True, metrics_to_score = [''reward''] \<rparr>"

definition example_parameters :: parameters where
  "example_parameters =
     \<lparr> rainbow_double_q_learning = True, training_minibatch_size = 2,
       training_learning_rate = 1 / 2, training_l2_decay = 0,
       parameters_actions = Some [''A'', ''B'', ''C''],
       rl_reward_boost = Some [(''B'', 2)] \<rparr>"

definition example_trainer :: trainer where
  "example_trainer =
     \<lparr> minibatch = 0, reward_burnin = 0, gamma = 9 / 10, tau = 1 / 10, rl_temperature = 1,
       maxq_learning = True, use_seq_num_diff_as_time_diff = False,
       calc_cpe_in_training = True, metrics_to_score = [''reward''],
       double_q_learning = True, minibatch_size = 2, actions = [''A'', ''B'', ''C''],
       q_network = [0, 0, 0], q_network_target = [1, 2, 3], q_network_optimizer = [],
       cpe = Some \<lparr> reward_network = [0, 0, 0], reward_network_optimizer = [],
         q_network_cpe = [0, 0, 0], q_network_cpe_target = [3, 2, 1],
         q_network_cpe_optimizer = [], reward_idx_offsets = [0] \<rparr>,
       reward_boosts = [[0, 2, 0]], all_action_scores = None, loss = None \<rparr>"

text \<open>The trainer and the report one training step on the example leaves behind.\<close>

definition example_trainer_after :: trainer where
  "example_trainer_after =
     \<lparr> minibatch = 1, reward_burnin = 0, gamma = 9 / 10, tau = 1 / 10, rl_temperature = 1,
       maxq_learning = True, use_seq_num_diff_as_time_diff = False,
       calc_cpe_in_training = True, metrics_to_score = [''reward''],
       double_q_learning = True, minibatch_size = 2, actions = [''A'', ''B'', ''C''],
       q_network = [1, 39 / 10, 0], q_network_target = [1, 219 / 100, 27 / 10],
       q_network_optimizer = [],
       cpe = Some \<lparr> reward_network = [1, 1, 1], reward_network_optimizer = [],
         q_network_cpe = [1, 1, 1], q_network_cpe_target = [14 / 5, 19 / 10, 1],
         q_network_cpe_optimizer = [], reward_idx_offsets = [0] \<rparr>,
       reward_boosts = [[0, 2, 0]], all_action_scores = Some [[0, 0, 0], [0, 0, 0]],
       loss = Some (1621 / 200) \<rparr>"

definition example_report :: report where
  "example_report =
     \<lparr> td_loss = Some (1621 / 200), reward_loss = Some 1, logged_actions = [[1], [0]],
       logged_propensities = [[1 / 2], [1 / 2]], logged_rewards = [[3], [1]],
       model_propensities = Some [[1 / 2, 1 / 2, 0], [1 / 3, 1 / 3, 1 / 3]],
       model_rewards = Some [[0, 0, 0], [0, 0, 0]],
       model_values = Some [[0, 0, 0], [0, 0, 0]],
       model_action_idxs = [[0], [0]] \<rparr>"

text \<open>The same step during burn-in.\<close>

definition example_burnin :: trainer where
  "example_burnin = example_trainer\<lparr>reward_burnin := 5\<rparr>"

definition example_burnin_after :: trainer where
  "example_burnin_after =
     example_trainer_after\<lparr>reward_burnin := 5, q_network := [1, 3, 0],
       q_network_target := [1, 3, 0],
       cpe := Some \<lparr> reward_network = [1, 1, 1], reward_network_optimizer = [],
         q_network_cpe = [1, 1, 1], q_network_cpe_target = [1, 1, 1],
         q_network_cpe_optimizer = [], reward_idx_offsets = [0] \<rparr>,
       loss := Some 5\<rparr>"

definition example_burnin_report :: report where
  "example_burnin_report = example_report\<lparr>td_loss := Some 5\<rparr>"

text \<open>The example trainer in on-policy (SARSA) mode.\<close>

definition example_sarsa :: trainer where
  "example_sarsa = example_trainer\<lparr>maxq_learning := False\<rparr>"

text \<open>The example trainer with a snapshot of action scores, and what \<^verbatim>\<open>calculate_cpes\<close>
  leaves of it.\<close>

definition example_scored :: trainer where
  "example_scored = example_trainer\<lparr>all_action_scores := Some [[0, 0, 0], [0, 0, 0]]\<rparr>"

definition example_scored_after :: trainer where
  "example_scored_after =
     example_scored\<lparr>cpe := Some \<lparr> reward_network = [1, 1, 1], reward_network_optimizer = [],
         q_network_cpe = [1, 1, 1], q_network_cpe_target = [14 / 5, 19 / 10, 1],
         q_network_cpe_optimizer = [], reward_idx_offsets = [0] \<rparr>\<rparr>"

text \<open>CPE attributes for two metrics over the three actions.\<close>

definition example_two_metrics :: cpe_attrs where
  "example_two_metrics =
     \<lparr> reward_network = [0, 0, 0, 0, 0, 0], reward_network_optimizer = [],
       q_network_cpe = [0, 0, 0, 0, 0, 0], q_network_cpe_target = [3, 2, 1, 30, 20, 10],
       q_network_cpe_optimizer = [], reward_idx_offsets = [0, 3] \<rparr>"

text \<open>The example trainer with a configured soft-update rate of 2, and what one
  training step leaves of it.\<close>

definition example_tau2 :: trainer where
  "example_tau2 = example_trainer\<lparr>tau := 2\<rparr>"

definition example_tau2_after :: trainer where
  "example_tau2_after =
     example_trainer_after\<lparr>tau := 2, q_network_target := [1, 29 / 5, - 3],
       cpe := Some \<lparr> reward_network = [1, 1, 1], reward_network_optimizer = [],
         q_network_cpe = [1, 1, 1], q_network_cpe_target = [- 1, 0, 1],
         q_network_cpe_optimizer = [], reward_idx_offsets = [0] \<rparr>\<rparr>"

definition example_bad_batch :: training_batch where
  "example_bad_batch = example_batch\<lparr>action := [[0, 1], [1, 0]]\<rparr>"

definition example_bad_parameters :: parameters where
  "example_bad_parameters = example_parameters\<lparr>rl_reward_boost := Some [(''B'', 2), (''D'', 1)]\<rparr>"

definition example_no_cpe :: trainer where
  "example_no_cpe = example_trainer\<lparr>calc_cpe_in_training := False, cpe := None\<rparr>"

section \<open>Properties\<close>

subsection \<open>Results and broadcasting\<close>

lemma ebind_Inr [simp]: "ebind (Inr x) f = f x"
  by (simp add: ebind_def)

lemma ebind_Inl [simp]: "ebind (Inl e) f = Inl e"
  by (simp add: ebind_def)

lemma ebind_eq_Inr: "ebind m f = Inr y \<longleftrightarrow> (\<exists>x. m = Inr x \<and> f x = Inr y)"
  by (cases m) auto

lemma ebind_eq_Inl: "ebind m f = Inl e \<longleftrightarrow> m = Inl e \<or> (\<exists>x. m = Inr x \<and> f x = Inl e)"
  by (cases m) auto

lemma emap_eq_Inr:
  "emap f xs = Inr ys \<longleftrightarrow> length ys = length xs \<and> (\<forall>i<length xs. f (xs ! i) = Inr (ys ! i))"
proof (induction xs arbitrary: ys)
  case Nil
  then show ?case by auto
next
  case (Cons x xs)
  show ?case
  proof (cases ys)
    case Nil
    then show ?thesis by (auto simp: ebind_eq_Inr)
  next
    case (Cons y ys')
    then show ?thesis
      using Cons.IH [of ys'] by (auto simp: ebind_eq_Inr All_less_Suc2 less_Suc_eq_0_disj)
  qed
qed

lemma emap_map: "(\<And>x. x \<in> set xs \<Longrightarrow> f x = Inr (g x)) \<Longrightarrow> emap f xs = Inr (map g xs)"
  by (simp add: emap_eq_Inr)

lemma emap_eq_Inl: "emap f xs = Inl e \<Longrightarrow> \<exists>x\<in>set xs. f x = Inl e"
  by (induction xs) (auto simp: ebind_eq_Inl)

lemma bcast_row_single_right: "bcast_row f a [y] = Inr (map (\<lambda>x. f x y) a)"
  by (cases a; cases "tl a") (auto simp: bcast_row_def)

lemma bcast_row_single_left: "bcast_row f [x] b = Inr (map (f x) b)"
  by (cases b; cases "tl b") (auto simp: bcast_row_def)

lemma bcast_row_same: "length a = length b \<Longrightarrow> bcast_row f a b = Inr (map2 f a b)"
  by (simp add: bcast_row_def)

lemma bcast_single_left: "bcast f [a] B = emap (bcast_row f a) B"
  by (cases B; cases "tl B") (auto simp: bcast_def)

lemma bcast_single_right: "bcast f A [b] = emap (\<lambda>a. bcast_row f a b) A"
  by (cases A; cases "tl A") (auto simp: bcast_def)

lemma bcast_same: "length A = length B \<Longrightarrow> bcast f A B = emap (\<lambda>(a, b). bcast_row f a b) (zip A B)"
  by (simp add: bcast_def)

lemma bcast_same_eq_Inr:
  "length A = length B \<Longrightarrow>
   bcast f A B = Inr C \<longleftrightarrow>
     length C = length A \<and> (\<forall>i<length A. bcast_row f (A ! i) (B ! i) = Inr (C ! i))"
  by (auto simp: bcast_same emap_eq_Inr)

lemmas example_defs =
  example_env_def example_trainer_def example_batch_def example_forward_def
  example_mse_loss_def example_q_step_def example_gather_step_def example_no_cpe_def
  example_bad_batch_def example_bad_parameters_def example_parameters_def example_base_def
  example_trainer_after_def example_report_def example_burnin_def example_burnin_after_def
  example_burnin_report_def example_sarsa_def example_scored_def example_scored_after_def
  example_two_metrics_def example_tau2_def example_tau2_after_def

lemmas operation_defs =
  boost_rewards_def bcast_def bcast_row_def sum_dim1_def next_q_values_def
  get_detached_q_values_def get_max_q_values_with_target_def select_row_def masked_argmax_def
  target_q_values_def full_like_def to_float_def train_q_network_def soft_update_def
  soft_update_rate_def argmax_dim1_def argmax_list_def calculate_cpes_def gather_dim1_def
  gather_row_def target_metric_q_values_def masked_softmax_def softmax_row_def
  select_columns_def num_actions_def get_max_q_values_def cat_dim1_def

lemma example_train:
  "train example_env example_trainer (Batch example_batch) =
     Inr (example_trainer_after, example_report)"
  by (simp add: train_def example_defs operation_defs Let_def power2_eq_square)

lemma example_burnin_train:
  "train example_env example_burnin (Batch example_batch) =
     Inr (example_burnin_after, example_burnin_report)"
  by (simp add: train_def example_defs operation_defs Let_def power2_eq_square)

lemma example_tau2_train:
  "train example_env example_tau2 (Batch example_batch) =
     Inr (example_tau2_after, example_report)"
  by (simp add: train_def example_defs operation_defs Let_def power2_eq_square)

lemma example_bad_train:
  "train example_env example_trainer (Batch example_bad_batch) = Inl RuntimeError"
  by (simp add: train_def example_defs operation_defs Let_def)

subsection \<open>What a training step that returns has done\<close>

lemma train_q_network_frame:
  "train_q_network env t b tgt = Inr t' \<Longrightarrow>
   all_action_scores t' = Some (q_forward env (q_network t) (state b)) \<and> cpe t' = cpe t \<and>
   calc_cpe_in_training t' = calc_cpe_in_training t \<and> minibatch t' = minibatch t \<and>
   reward_burnin t' = reward_burnin t \<and> tau t' = tau t \<and> maxq_learning t' = maxq_learning t \<and>
   rl_temperature t' = rl_temperature t"
  by (auto simp: train_q_network_def Let_def ebind_eq_Inr split_beta)

lemma train_q_network_target:
  "train_q_network env t b tgt = Inr t' \<Longrightarrow>
   q_network_target t' = soft_update (q_network t') (q_network_target t) (soft_update_rate t) \<and>
   q_network t' =
     fst (q_backward_step env (q_network t) (q_network_optimizer t) (state b) (action b) tgt)"
  by (auto simp: train_q_network_def Let_def ebind_eq_Inr split_beta soft_update_rate_def)

lemma train_q_network_loss:
  "train_q_network env t b tgt = Inr t' \<Longrightarrow>
   \<exists>qa. bcast (*) (q_forward env (q_network t) (state b)) (action b) = Inr qa \<and>
     loss t' = Some (q_network_loss env (sum_dim1 qa) tgt)"
  by (auto simp: train_q_network_def Let_def ebind_eq_Inr split_beta)

lemma calculate_cpes_frame:
  "calculate_cpes env t b s li mi d m = Inr (t', x) \<Longrightarrow>
   t' = t \<or> (\<exists>c. t' = t\<lparr>cpe := Some c\<rparr>)"
  by (auto simp: calculate_cpes_def Let_def ebind_eq_Inr split_beta
      split: if_splits option.splits list.splits)

lemma train_Inr:
  assumes "train env t0 arg = Inr (t', rep)"
  shows "\<exists>b rewards next_q idxs tgt t5 li rl mr mp scores vals midx.
    b = (case arg of Page p \<Rightarrow> as_discrete_sarsa_training_batch env p | Batch b' \<Rightarrow> b') \<and>
    boost_rewards t0 (reward b) (action b) = Inr rewards \<and>
    next_q_values env (t0\<lparr>minibatch := minibatch t0 + 1\<rparr>) b = Inr (next_q, idxs) \<and>
    target_q_values (t0\<lparr>minibatch := minibatch t0 + 1\<rparr>) rewards
      (full_like rewards (gamma t0)) next_q (to_float (not_terminal b)) = Inr tgt \<and>
    train_q_network env (t0\<lparr>minibatch := minibatch t0 + 1\<rparr>) b tgt = Inr t5 \<and>
    argmax_dim1 (action b) = Inr li \<and>
    calculate_cpes env t5 b (state b) li idxs (full_like rewards (gamma t0))
      (to_float (not_terminal b)) = Inr (t', rl, mr, mp) \<and>
    all_action_scores t' = Some scores \<and>
    get_max_q_values t' scores
      (if maxq_learning t' then possible_actions_mask b else action b) = Inr (vals, midx) \<and>
    rep = \<lparr> td_loss = loss t', reward_loss = rl, logged_actions = li,
            logged_propensities = action_probability b, logged_rewards = rewards,
            model_propensities = mp, model_rewards = mr,
            model_values = all_action_scores t', model_action_idxs = midx \<rparr>"
  using assms
  by (auto simp: train_def Let_def ebind_eq_Inr split_beta split: option.splits)

subsection \<open>CPE disabled\<close>

text \<open>
  Claim C9. When CPE is disabled in the configuration, \<^verbatim>\<open>calculate_cpes\<close> returns
  \<^verbatim>\<open>(None, None, None)\<close> for every batch and every other argument, and the trainer it
  leaves behind is the trainer it was called on: the reward network, the CPE value
  network, the CPE target network and their optimizer states are unchanged.
\<close>

theorem calculate_cpes_disabled:
  "\<not> calc_cpe_in_training t \<Longrightarrow>
   calculate_cpes env t b states logged_action_idxs max_q_action_idxs discount_tensor
     not_done_mask = Inr (t, None, None, None)"
  by (simp add: calculate_cpes_def)

theorem calculate_cpes_disabled_witness:
  "\<not> calc_cpe_in_training example_no_cpe \<and>
   calculate_cpes example_env example_no_cpe example_batch (state example_batch)
     [[1], [0]] [[0], [1]] [[9 / 10], [9 / 10]] [[1], [0]] = Inr (example_no_cpe, None, None, None)"
proof -
  have h: "\<not> calc_cpe_in_training example_no_cpe"
    by (simp add: example_no_cpe_def)
  show ?thesis
    using h calculate_cpes_disabled [OF h, of example_env example_batch "state example_batch"
        "[[1], [0]]" "[[0], [1]]" "[[9 / 10], [9 / 10]]" "[[1], [0]]"]
    by simp
qed

subsection \<open>The two kinds of argument of \<^verbatim>\<open>train\<close>\<close>

text \<open>
  Claim C10. \<^verbatim>\<open>train\<close> accepts a \<^verbatim>\<open>TrainingDataPage\<close> or an already converted
  discrete-SARSA training batch: on a page \<open>p\<close> and any trainer state it computes, returns
  and leaves behind exactly what it does on \<^verbatim>\<open>p.as_discrete_sarsa_training_batch()\<close>.
\<close>

theorem train_page_is_train_batch:
  "train env t (Page p) = train env t (Batch (as_discrete_sarsa_training_batch env p))"
  by (simp add: train_def)

lemma length_one_conv: "length xs = Suc 0 \<longleftrightarrow> xs = [xs ! 0]"
  by (cases xs) auto

lemma bcast_row_cols: "length a = Suc 0 \<Longrightarrow> length b = Suc 0 \<Longrightarrow> bcast_row f a b = Inr [f (a ! 0) (b ! 0)]"
  by (cases a; cases b) (auto simp: bcast_row_def)

lemma bcast_cols:
  assumes "length A = length B"
    and "\<And>i. i < length A \<Longrightarrow> length (A ! i) = Suc 0 \<and> length (B ! i) = Suc 0"
  shows "bcast f A B = Inr (map (\<lambda>i. [f (A ! i ! 0) (B ! i ! 0)]) [0..<length A])"
  using assms by (simp add: bcast_same emap_eq_Inr bcast_row_cols)

subsection \<open>The target of the primary network\<close>

text \<open>
  Claim C2. In the first two parts \<open>t\<close> is the trainer after the step counter has been
  incremented (line 101), \<open>rewards\<close> the shaped rewards, \<open>next_q\<close> the next-state values
  and \<open>nt\<close> the boolean \<^verbatim>\<open>not_terminal\<close> column. Whenever the target is constructed with
  the counter below the burn-in threshold it is the shaped reward itself, whatever the
  next-state values are. On a batch of \<open>N\<close> rows of width 1 the construction succeeds,
  and outside burn-in row \<open>i\<close> of the target is
  \<open>reward i + gamma * (next value i * not_terminal i)\<close>, where \<open>not_terminal i\<close> is 1 or 0:
  the next-state value of a terminal transition is multiplied by 0. The third part ties
  this to \<^verbatim>\<open>train\<close>: in a step that returns, the target built in this way from the shaped
  rewards and the selected next-state values is the one the loss is computed against
  and the optimizer step is taken for.
\<close>

theorem target_q_values_burnin_rule:
  "(target_q_values t rewards (full_like rewards (gamma t)) next_q (to_float nt) = Inr tgt \<and>
      minibatch t < reward_burnin t \<longrightarrow> tgt = rewards) \<and>
   (length next_q = length rewards \<and> length nt = length rewards \<and>
      (\<forall>i<length rewards.
         length (rewards ! i) = 1 \<and> length (next_q ! i) = 1 \<and> length (nt ! i) = 1) \<longrightarrow>
      target_q_values t rewards (full_like rewards (gamma t)) next_q (to_float nt) =
        Inr (if minibatch t < reward_burnin t then rewards
             else map (\<lambda>i. [rewards ! i ! 0 +
                    gamma t * (next_q ! i ! 0 * (if nt ! i ! 0 then 1 else 0))])
                  [0..<length rewards])) \<and>
   (train env t0 (Batch b) = Inr (t', rep) \<longrightarrow>
      (\<exists>nq idxs tg qa.
         boost_rewards t0 (reward b) (action b) = Inr (logged_rewards rep) \<and>
         next_q_values env (t0\<lparr>minibatch := minibatch t0 + 1\<rparr>) b = Inr (nq, idxs) \<and>
         target_q_values (t0\<lparr>minibatch := minibatch t0 + 1\<rparr>) (logged_rewards rep)
           (full_like (logged_rewards rep) (gamma t0)) nq (to_float (not_terminal b)) = Inr tg \<and>
         bcast (*) (q_forward env (q_network t0) (state b)) (action b) = Inr qa \<and>
         td_loss rep = Some (q_network_loss env (sum_dim1 qa) tg) \<and>
         q_network t' =
           fst (q_backward_step env (q_network t0) (q_network_optimizer t0)
                  (state b) (action b) tg) \<and>
         (minibatch t0 + 1 < reward_burnin t0 \<longrightarrow> tg = logged_rewards rep)))"
proof (intro conjI impI)
  assume "target_q_values t rewards (full_like rewards (gamma t)) next_q (to_float nt) = Inr tgt \<and>
      minibatch t < reward_burnin t"
  then show "tgt = rewards"
    by (auto simp: target_q_values_def ebind_eq_Inr)
next
  assume a: "length next_q = length rewards \<and> length nt = length rewards \<and>
      (\<forall>i<length rewards.
         length (rewards ! i) = 1 \<and> length (next_q ! i) = 1 \<and> length (nt ! i) = 1)"
  let ?n = "length rewards"
  let ?f = "map (\<lambda>i. [next_q ! i ! 0 * (if nt ! i ! 0 then 1 else 0)]) [0..<?n]"
  have nd: "\<And>i. i < ?n \<Longrightarrow> to_float nt ! i ! 0 = (if nt ! i ! 0 then 1 else 0)"
    using a by (simp add: to_float_def)
  have f: "bcast (*) next_q (to_float nt) = Inr ?f"
    using a nd bcast_cols [of next_q "to_float nt" "(*)"] by (simp add: to_float_def)
  have d: "bcast (*) (full_like rewards (gamma t)) ?f =
      Inr (map (\<lambda>i. [gamma t * (next_q ! i ! 0 * (if nt ! i ! 0 then 1 else 0))]) [0..<?n])"
    using a bcast_cols [of "full_like rewards (gamma t)" ?f "(*)"] by (simp add: full_like_def)
  have s: "bcast (+) rewards
        (map (\<lambda>i. [gamma t * (next_q ! i ! 0 * (if nt ! i ! 0 then 1 else 0))]) [0..<?n]) =
      Inr (map (\<lambda>i. [rewards ! i ! 0 +
             gamma t * (next_q ! i ! 0 * (if nt ! i ! 0 then 1 else 0))]) [0..<?n])"
    using a bcast_cols [of rewards
        "map (\<lambda>i. [gamma t * (next_q ! i ! 0 * (if nt ! i ! 0 then 1 else 0))]) [0..<?n]" "(+)"]
    by simp
  show "target_q_values t rewards (full_like rewards (gamma t)) next_q (to_float nt) =
        Inr (if minibatch t < reward_burnin t then rewards
             else map (\<lambda>i. [rewards ! i ! 0 +
                    gamma t * (next_q ! i ! 0 * (if nt ! i ! 0 then 1 else 0))])
                  [0..<length rewards])"
    by (simp add: target_q_values_def f d s)
next
  let ?t1 = "t0\<lparr>minibatch := minibatch t0 + 1\<rparr>"
  assume tr: "train env t0 (Batch b) = Inr (t', rep)"
  from train_Inr [OF tr] obtain rewards nq idxs tg t5 li rl mr mp midx where
    br: "boost_rewards t0 (reward b) (action b) = Inr rewards"
    and nx: "next_q_values env ?t1 b = Inr (nq, idxs)"
    and tq: "target_q_values ?t1 rewards (full_like rewards (gamma t0)) nq
      (to_float (not_terminal b)) = Inr tg"
    and q: "train_q_network env ?t1 b tg = Inr t5"
    and c: "calculate_cpes env t5 b (state b) li idxs (full_like rewards (gamma t0))
      (to_float (not_terminal b)) = Inr (t', rl, mr, mp)"
    and r: "rep = \<lparr> td_loss = loss t', reward_loss = rl, logged_actions = li,
            logged_propensities = action_probability b, logged_rewards = rewards,
            model_propensities = mp, model_rewards = mr,
            model_values = all_action_scores t', model_action_idxs = midx \<rparr>"
    by (simp del: ex_simps) blast
  from train_q_network_loss [OF q] obtain qa where
    qa: "bcast (*) (q_forward env (q_network t0) (state b)) (action b) = Inr qa"
    and l5: "loss t5 = Some (q_network_loss env (sum_dim1 qa) tg)"
    by auto
  have l: "loss t' = loss t5" and n: "q_network t' = q_network t5"
    using calculate_cpes_frame [OF c] by auto
  have qn: "q_network t5 = fst (q_backward_step env (q_network t0) (q_network_optimizer t0)
      (state b) (action b) tg)"
    using train_q_network_target [OF q] by simp
  have bi: "tg = rewards" if "minibatch t0 + 1 < reward_burnin t0"
    using tq that by (auto simp: target_q_values_def ebind_eq_Inr)
  have lr: "logged_rewards rep = rewards" and tl: "td_loss rep = loss t'"
    by (simp_all add: r)
  show "\<exists>nq idxs tg qa.
         boost_rewards t0 (reward b) (action b) = Inr (logged_rewards rep) \<and>
         next_q_values env ?t1 b = Inr (nq, idxs) \<and>
         target_q_values ?t1 (logged_rewards rep)
           (full_like (logged_rewards rep) (gamma t0)) nq (to_float (not_terminal b)) = Inr tg \<and>
         bcast (*) (q_forward env (q_network t0) (state b)) (action b) = Inr qa \<and>
         td_loss rep = Some (q_network_loss env (sum_dim1 qa) tg) \<and>
         q_network t' =
           fst (q_backward_step env (q_network t0) (q_network_optimizer t0)
                  (state b) (action b) tg) \<and>
         (minibatch t0 + 1 < reward_burnin t0 \<longrightarrow> tg = logged_rewards rep)"
    unfolding lr tl l n
    using br nx tq qa l5 qn bi
    by (intro exI [of _ nq] exI [of _ idxs] exI [of _ tg] exI [of _ qa]) simp
qed

theorem target_q_values_burnin_rule_witness:
  "target_q_values (example_trainer\<lparr>minibatch := 1, reward_burnin := 5\<rparr>) [[3], [1]]
      (full_like [[3::real], [1]] (9 / 10)) [[1], [2]] (to_float [[True], [False]]) = Inr [[3], [1]] \<and>
   target_q_values (example_trainer\<lparr>minibatch := 1\<rparr>) [[3], [1]]
      (full_like [[3::real], [1]] (9 / 10)) [[1], [2]] (to_float [[True], [False]]) =
     Inr [[39 / 10], [1]] \<and>
   logged_rewards example_burnin_report = [[3], [1]] \<and>
   td_loss example_burnin_report = Some (q_network_loss example_env [[0], [0]] [[3], [1]])"
proof -
  note r = target_q_values_burnin_rule
  have 1: "target_q_values (example_trainer\<lparr>minibatch := 1, reward_burnin := 5\<rparr>) [[3], [1]]
      (full_like [[3::real], [1]] (9 / 10)) [[1], [2]] (to_float [[True], [False]]) =
      Inr [[3], [1]]"
    using r [where t = "example_trainer\<lparr>minibatch := 1, reward_burnin := 5\<rparr>"
        and rewards = "[[3], [1]]" and next_q = "[[1], [2]]" and nt = "[[True], [False]]",
        THEN conjunct2, THEN conjunct1]
    by (simp add: example_trainer_def All_less_Suc2 less_Suc_eq_0_disj nth_Cons')
  have 2: "target_q_values (example_trainer\<lparr>minibatch := 1\<rparr>) [[3], [1]]
      (full_like [[3::real], [1]] (9 / 10)) [[1], [2]] (to_float [[True], [False]]) =
      Inr [[39 / 10], [1]]"
    using r [where t = "example_trainer\<lparr>minibatch := 1\<rparr>"
        and rewards = "[[3], [1]]" and next_q = "[[1], [2]]" and nt = "[[True], [False]]",
        THEN conjunct2, THEN conjunct1]
    by (simp add: example_trainer_def All_less_Suc2 less_Suc_eq_0_disj nth_Cons')
  have b: "minibatch example_burnin + 1 < reward_burnin example_burnin"
    by (simp add: example_defs)
  have q: "bcast (*) (q_forward example_env (q_network example_burnin) (state example_batch))
      (action example_batch) = Inr [[0, 0, 0], [0, 0, 0]]"
    by (simp add: example_defs bcast_def bcast_row_def)
  have l: "logged_rewards example_burnin_report = [[3], [1]]"
    by (simp add: example_defs)
  from r [THEN conjunct2, THEN conjunct2, rule_format, OF example_burnin_train]
  obtain tg qa where
    "bcast (*) (q_forward example_env (q_network example_burnin) (state example_batch))
      (action example_batch) = Inr qa"
    "td_loss example_burnin_report = Some (q_network_loss example_env (sum_dim1 qa) tg)"
    "minibatch example_burnin + 1 < reward_burnin example_burnin \<longrightarrow>
      tg = logged_rewards example_burnin_report"
    by blast
  then have 3: "td_loss example_burnin_report =
      Some (q_network_loss example_env [[0], [0]] [[3], [1]])"
    using b q l by (auto simp: sum_dim1_def)
  show ?thesis
    using 1 2 3 l by simp
qed

subsection \<open>The constructor\<close>

lemma index_of_Some: "index_of xs k = Some i \<Longrightarrow> i < length xs \<and> xs ! i = k"
  by (induction xs arbitrary: i) (auto split: if_splits)

lemma index_of_None: "index_of xs k = None \<longleftrightarrow> k \<notin> set xs"
  by (induction xs) auto

lemma index_of_nth: "distinct xs \<Longrightarrow> i < length xs \<Longrightarrow> index_of xs (xs ! i) = Some i"
proof (induction xs arbitrary: i)
  case Nil
  then show ?case by simp
next
  case (Cons x xs)
  then show ?case by (cases i) auto
qed

lemma set_reward_boosts_length:
  "set_reward_boosts acts kvs rb = Inr rb' \<Longrightarrow> length rb' = length rb"
  by (induction acts kvs rb rule: set_reward_boosts.induct) (auto split: option.splits)

lemma set_reward_boosts_nth:
  "set_reward_boosts acts kvs rb = Inr rb' \<Longrightarrow> distinct acts \<Longrightarrow> distinct (map fst kvs) \<Longrightarrow>
   length rb = length acts \<Longrightarrow> i < length acts \<Longrightarrow>
   rb' ! i = (case map_of kvs (acts ! i) of None \<Rightarrow> rb ! i | Some v \<Rightarrow> v)"
proof (induction acts kvs rb rule: set_reward_boosts.induct)
  case (1 acts rb)
  then show ?case by simp
next
  case (2 acts k v kvs rb)
  from "2.prems"(1) obtain i' where i': "index_of acts k = Some i'"
    and r: "set_reward_boosts acts kvs (rb[i' := v]) = Inr rb'"
    by (auto split: option.splits)
  have ih: "rb' ! i = (case map_of kvs (acts ! i) of None \<Rightarrow> rb[i' := v] ! i | Some v \<Rightarrow> v)"
    using "2.IH" [OF i' r] "2.prems" by simp
  have k: "i' < length acts" "acts ! i' = k"
    using index_of_Some [OF i'] by auto
  show ?case
  proof (cases "acts ! i = k")
    case True
    then have "i = i'"
      using k "2.prems"(2,5) nth_eq_iff_index_eq [of acts i i'] by simp
    moreover have "map_of kvs k = None"
      using "2.prems"(3) by (simp add: map_of_eq_None_iff)
    ultimately show ?thesis
      using ih True "2.prems" by simp
  next
    case False
    then have "i \<noteq> i'" using k by auto
    then show ?thesis
      using ih False by (simp split: option.splits)
  qed
qed

lemma set_reward_boosts_Inl:
  "set_reward_boosts acts kvs rb = Inl e \<longleftrightarrow> e = ValueError \<and> \<not> fst ` set kvs \<subseteq> set acts"
  by (induction acts kvs rb rule: set_reward_boosts.induct)
    (auto split: option.splits simp: index_of_None dest: index_of_Some)

lemma one_hot_nth: "i < n \<Longrightarrow> one_hot n j ! i = (if i = j then 1 else 0)"
  by (simp add: one_hot_def nth_list_update)

lemma length_one_hot [simp]: "length (one_hot n j) = n"
  by (simp add: one_hot_def)

lemma inner_product_one_hot:
  assumes "j < n" "length b = n"
  shows "inner_product (one_hot n j) b = b ! j"
proof -
  have "inner_product (one_hot n j) b = (\<Sum>i = 0..<n. one_hot n j ! i * b ! i)"
    using assms by (simp add: inner_product_def sum_list_sum_nth)
  also have "\<dots> = (\<Sum>i = 0..<n. if i = j then b ! i else 0)"
    by (rule sum.cong) (auto simp: one_hot_nth)
  also have "\<dots> = b ! j"
    using assms by simp
  finally show ?thesis .
qed

lemma inner_product_commute: "inner_product x y = inner_product y x"
proof -
  have "map2 (*) x y = map2 (*) y x"
    by (induction x arbitrary: y) (auto simp: zip_Cons1 split: list.splits)
  then show ?thesis by (simp add: inner_product_def)
qed

lemma init_Inr:
  assumes "init env base q_net q_net_target reward_net params q_cpe q_cpe_target = Inr t"
  shows "\<exists>c boosts.
     init_cpe env base params (length (actions t)) reward_net q_cpe q_cpe_target = Inr c \<and>
     (case rl_reward_boost params of
        None \<Rightarrow> Inr (replicate (length (actions t)) 0)
      | Some rb \<Rightarrow> set_reward_boosts (actions t) rb (replicate (length (actions t)) 0)) =
       Inr boosts \<and>
     actions t = (case parameters_actions params of None \<Rightarrow> [] | Some a \<Rightarrow> a) \<and>
     reward_boosts t = [boosts] \<and> cpe t = c \<and>
     calc_cpe_in_training t = calc_cpe_in_training base \<and>
     minibatch t = minibatch base"
proof -
  let ?acts = "case parameters_actions params of None \<Rightarrow> [] | Some a \<Rightarrow> a"
  from assms obtain c boosts where
    c: "init_cpe env base params (length ?acts) reward_net q_cpe q_cpe_target = Inr c"
    and b: "(case rl_reward_boost params of
        None \<Rightarrow> Inr (replicate (length ?acts) 0)
      | Some rb \<Rightarrow> set_reward_boosts ?acts rb (replicate (length ?acts) 0)) = Inr boosts"
    and t: "t = base_trainer.extend base
        (trainer.fields
          (rainbow_double_q_learning params)
          (training_minibatch_size params)
          ?acts q_net q_net_target
          (optimizer_func env q_net (training_learning_rate params) (training_l2_decay params))
          c [boosts] None None)"
    by (auto simp: init_def Let_def ebind_eq_Inr)
  have a: "actions t = ?acts" "reward_boosts t = [boosts]" "cpe t = c"
    "calc_cpe_in_training t = calc_cpe_in_training base" "minibatch t = minibatch base"
    by (simp_all add: t base_trainer.defs trainer.defs)
  show ?thesis
    using c b a by (simp split: option.splits)
qed

lemma init_boosts:
  assumes i: "init env base q_net q_net_target reward_net params q_cpe q_cpe_target = Inr t"
    and d: "distinct (actions t)" and k: "dict_keys_distinct params"
  shows "\<exists>boosts. reward_boosts t = [boosts] \<and> length boosts = length (actions t) \<and>
     (\<forall>j<length (actions t). boosts ! j = configured_boost params (actions t ! j))"
proof -
  from init_Inr [OF i] obtain boosts where
    b: "(case rl_reward_boost params of
        None \<Rightarrow> Inr (replicate (length (actions t)) 0)
      | Some rb \<Rightarrow> set_reward_boosts (actions t) rb (replicate (length (actions t)) 0)) =
       Inr boosts" and r: "reward_boosts t = [boosts]"
    by blast
  show ?thesis
  proof (cases "rl_reward_boost params")
    case None
    then show ?thesis
      using b r by (auto simp: configured_boost_def)
  next
    case (Some rb)
    then have s: "set_reward_boosts (actions t) rb (replicate (length (actions t)) 0) = Inr boosts"
      using b by simp
    have "distinct (map fst rb)"
      using k Some by (simp add: dict_keys_distinct_def)
    then have "boosts ! j = (case map_of rb (actions t ! j) of None \<Rightarrow> 0 | Some v \<Rightarrow> v)"
      if "j < length (actions t)" for j
      using set_reward_boosts_nth [OF s d _ _ that] that by (simp split: option.splits)
    then show ?thesis
      using r Some set_reward_boosts_length [OF s] by (simp add: configured_boost_def)
  qed
qed


lemma example_init:
  "init example_env example_base [0, 0, 0] [1, 2, 3] (Some [0, 0, 0]) example_parameters
     (Some [0, 0, 0]) (Some [3, 2, 1]) = Inr example_trainer"
  by (simp add: init_def init_cpe_def example_env_def example_base_def example_parameters_def
      example_trainer_def arange_step_def base_trainer.defs trainer.defs)

subsection \<open>Which errors a training step can raise\<close>

lemma ebind_error:
  "ebind m f = Inl e \<Longrightarrow> (m = Inl e \<Longrightarrow> P) \<Longrightarrow> (\<And>x. m = Inr x \<Longrightarrow> f x = Inl e \<Longrightarrow> P) \<Longrightarrow> P"
  by (auto simp: ebind_eq_Inl)

lemma emap_error: "emap f xs = Inl e \<Longrightarrow> (\<And>x. f x = Inl e \<Longrightarrow> P) \<Longrightarrow> P"
  by (auto dest: emap_eq_Inl)

lemma bcast_row_error: "bcast_row f a b = Inl e \<Longrightarrow> tensor_error e"
  by (auto simp: bcast_row_def split: if_splits)

lemma bcast_error: "bcast f A B = Inl e \<Longrightarrow> tensor_error e"
  by (auto simp: bcast_def split: if_splits elim!: emap_error dest: bcast_row_error)

lemma gather_row_error: "gather_row r ix = Inl e \<Longrightarrow> tensor_error e"
  by (auto simp: gather_row_def split: if_splits elim!: emap_error)

lemma gather_dim1_error: "gather_dim1 x ix = Inl e \<Longrightarrow> tensor_error e"
  by (auto simp: gather_dim1_def split: if_splits elim!: emap_error dest: gather_row_error)

lemma cat_dim1_error: "cat_dim1 a b = Inl e \<Longrightarrow> tensor_error e"
  by (auto simp: cat_dim1_def split: if_splits)

lemma select_columns_error: "select_columns x lo n = Inl e \<Longrightarrow> tensor_error e"
  by (auto simp: select_columns_def elim!: emap_error dest: gather_row_error)

lemma argmax_dim1_error: "argmax_dim1 x = Inl e \<Longrightarrow> tensor_error e"
  by (auto simp: argmax_dim1_def split: option.splits elim!: emap_error)

lemma boost_rewards_error: "boost_rewards t r a = Inl e \<Longrightarrow> tensor_error e"
  by (auto simp: boost_rewards_def elim!: ebind_error dest: bcast_error)

lemma select_row_error: "select_row dq q qt m = Inl e \<Longrightarrow> tensor_error e"
  by (auto simp: select_row_def split: if_splits option.splits)

lemma get_max_q_values_with_target_error:
  "get_max_q_values_with_target t q qt m = Inl e \<Longrightarrow> tensor_error e"
  by (auto simp: get_max_q_values_with_target_def split: if_splits
      elim!: ebind_error emap_error dest: select_row_error)

lemma softmax_row_error: "softmax_row temp x m = Inl e \<Longrightarrow> tensor_error e"
  by (auto simp: softmax_row_def Let_def split: if_splits)

lemma masked_softmax_error: "masked_softmax x m temp = Inl e \<Longrightarrow> tensor_error e"
  by (auto simp: masked_softmax_def split: if_splits elim!: emap_error dest: softmax_row_error)

lemma next_q_values_error: "next_q_values env t b = Inl e \<Longrightarrow> tensor_error e"
  by (auto simp: next_q_values_def get_detached_q_values_def
      split: if_splits dest: get_max_q_values_with_target_error)

lemma target_q_values_error: "target_q_values t r d n m = Inl e \<Longrightarrow> tensor_error e"
  by (auto simp: target_q_values_def split: if_splits elim!: ebind_error dest: bcast_error)

lemma target_metric_q_values_error:
  "target_metric_q_values env t c s v ix d m = Inl e \<Longrightarrow> tensor_error e"
  by (auto simp: target_metric_q_values_def Let_def split: if_splits
      elim!: ebind_error dest: bcast_error gather_dim1_error)

lemma train_q_network_error: "train_q_network env t b tgt = Inl e \<Longrightarrow> tensor_error e"
  by (auto simp: train_q_network_def Let_def split_beta
      elim!: ebind_error dest: bcast_error)

lemma calculate_cpes_error:
  "calculate_cpes env t b s li mi d m = Inl e \<Longrightarrow>
   tensor_error e \<or>
   e = AttributeError \<and> calc_cpe_in_training t \<and> (cpe t = None \<or> all_action_scores t = None)"
  by (auto simp: calculate_cpes_def Let_def split_beta split: if_splits option.splits list.splits
      elim!: ebind_error
      dest: bcast_error gather_dim1_error cat_dim1_error target_metric_q_values_error
        masked_softmax_error select_columns_error)

lemma case_option_eq_Inl:
  "(case x of None \<Rightarrow> Inl a | Some s \<Rightarrow> f s) = Inl e \<longleftrightarrow>
   x = None \<and> e = a \<or> (\<exists>s. x = Some s \<and> f s = Inl e)"
  by (cases x) auto

lemma calculate_cpes_after_q_error:
  assumes "train_q_network env t b tgt = Inr t5"
    and "calculate_cpes env t5 b' s li mi d m = Inl e"
  shows "tensor_error e \<or> e = AttributeError \<and> calc_cpe_in_training t \<and> cpe t = None"
  using calculate_cpes_error [OF assms(2)] train_q_network_frame [OF assms(1)] by auto

lemma calculate_cpes_after_q_scores:
  assumes "train_q_network env t b tgt = Inr t5"
    and "calculate_cpes env t5 b' s li mi d m = Inr (t6, x)"
  shows "all_action_scores t6 = Some (q_forward env (q_network t) (state b))"
  using calculate_cpes_frame [OF assms(2)] train_q_network_frame [OF assms(1)] by auto

lemma train_error:
  assumes "train env t arg = Inl e"
  shows "tensor_error e \<or> e = AttributeError \<and> calc_cpe_in_training t \<and> cpe t = None"
proof -
  let ?b = "case arg of Page p \<Rightarrow> as_discrete_sarsa_training_batch env p | Batch b' \<Rightarrow> b'"
  let ?t1 = "t\<lparr>minibatch := minibatch t + 1\<rparr>"
  from assms consider
    (boost) "boost_rewards t (reward ?b) (action ?b) = Inl e"
  | (nextq) "next_q_values env ?t1 ?b = Inl e"
  | (target) r n where "target_q_values ?t1 r (full_like r (gamma t)) n
        (to_float (not_terminal ?b)) = Inl e"
  | (primary) tgt where "train_q_network env ?t1 ?b tgt = Inl e"
  | (logged) "argmax_dim1 (action ?b) = Inl e"
  | (cpe) tgt t5 li mi d m where "train_q_network env ?t1 ?b tgt = Inr t5"
      "calculate_cpes env t5 ?b (state ?b) li mi d m = Inl e"
  | (scores) tgt t5 li mi d m t6 x where "train_q_network env ?t1 ?b tgt = Inr t5"
      "calculate_cpes env t5 ?b (state ?b) li mi d m = Inr (t6, x)"
      "all_action_scores t6 = None"
  | (model) t6 sc m where "get_max_q_values t6 sc m = Inl e"
    by (auto simp: train_def Let_def split_beta ebind_eq_Inl case_option_eq_Inl)
  then show ?thesis
  proof cases
    case boost
    then show ?thesis by (simp add: boost_rewards_error)
  next
    case nextq
    then show ?thesis by (simp add: next_q_values_error)
  next
    case target
    then show ?thesis by (simp add: target_q_values_error)
  next
    case primary
    then show ?thesis by (simp add: train_q_network_error)
  next
    case logged
    then show ?thesis by (simp add: argmax_dim1_error)
  next
    case cpe
    then show ?thesis using calculate_cpes_after_q_error by fastforce
  next
    case scores
    then show ?thesis using calculate_cpes_after_q_scores by fastforce
  next
    case model
    then show ?thesis
      by (simp add: get_max_q_values_def get_max_q_values_with_target_error)
  qed
qed


lemma init_cpe_Inl:
  "init_cpe env base params n reward_net q_cpe q_cpe_target = Inl e \<longleftrightarrow>
   calc_cpe_in_training base \<and>
   (reward_net = None \<and> e = AssertionError ''reward_network is required for CPE'' \<or>
    reward_net \<noteq> None \<and> (q_cpe = None \<or> q_cpe_target = None) \<and>
      e = AssertionError ''q_network_cpe and q_network_cpe_target are required for CPE'' \<or>
    reward_net \<noteq> None \<and> q_cpe \<noteq> None \<and> q_cpe_target \<noteq> None \<and> n = 0 \<and> e = RuntimeError)"
  by (auto simp: init_cpe_def arange_step_def ebind_eq_Inl split: option.splits)

lemma init_cpe_Inr:
  "init_cpe env base params n reward_net q_cpe q_cpe_target = Inr c \<Longrightarrow>
   calc_cpe_in_training base \<Longrightarrow> c \<noteq> None"
  by (auto simp: init_cpe_def ebind_eq_Inr split: option.splits)

lemma init_Inl:
  "init env base q_net q_net_target reward_net params q_cpe q_cpe_target = Inl e \<longleftrightarrow>
   init_cpe env base params
     (length (case parameters_actions params of None \<Rightarrow> [] | Some a \<Rightarrow> a))
     reward_net q_cpe q_cpe_target = Inl e \<or>
   (\<exists>c. init_cpe env base params
     (length (case parameters_actions params of None \<Rightarrow> [] | Some a \<Rightarrow> a))
     reward_net q_cpe q_cpe_target = Inr c) \<and> e = ValueError \<and>
   (\<exists>rb. rl_reward_boost params = Some rb \<and>
      \<not> fst ` set rb \<subseteq> set (case parameters_actions params of None \<Rightarrow> [] | Some a \<Rightarrow> a))"
  by (auto simp: init_def Let_def ebind_eq_Inl set_reward_boosts_Inl split: option.splits)

lemma init_cpe_total:
  "(\<exists>c. init_cpe env base params n reward_net q_cpe q_cpe_target = Inr c) \<longleftrightarrow>
   (calc_cpe_in_training base \<longrightarrow>
      reward_net \<noteq> None \<and> q_cpe \<noteq> None \<and> q_cpe_target \<noteq> None \<and> n \<noteq> 0)"
  by (auto simp: init_cpe_def arange_step_def split: option.splits)

subsection \<open>Configuration errors\<close>

text \<open>
  Claim C8. The constructor raises the assertion error exactly when CPE is enabled and
  one of the reward network, the CPE value network and the CPE target network is not
  supplied, and it raises the \<^verbatim>\<open>ValueError\<close> of \<^verbatim>\<open>list.index\<close> exactly when it gets past
  the CPE block and some key of the reward-boost dictionary is not in the action set.
  A training step never raises either error, and neither does \<^verbatim>\<open>calculate_cpes\<close>. A
  trainer the constructor returns has its CPE attributes whenever CPE is enabled; a
  training step on such a trainer fails only with an error of a tensor operation or a
  violated precondition, and leaves such a trainer behind.
\<close>

theorem configuration_errors_at_construction:
  "(init env base q_net q_net_target reward_net params q_cpe q_cpe_target =
      Inl (AssertionError m) \<longleftrightarrow>
    calc_cpe_in_training base \<and>
    (reward_net = None \<and> m = ''reward_network is required for CPE'' \<or>
     reward_net \<noteq> None \<and> (q_cpe = None \<or> q_cpe_target = None) \<and>
       m = ''q_network_cpe and q_network_cpe_target are required for CPE'')) \<and>
   (init env base q_net q_net_target reward_net params q_cpe q_cpe_target = Inl ValueError \<longleftrightarrow>
    (calc_cpe_in_training base \<longrightarrow>
       reward_net \<noteq> None \<and> q_cpe \<noteq> None \<and> q_cpe_target \<noteq> None \<and>
       parameters_actions params \<noteq> None \<and> parameters_actions params \<noteq> Some []) \<and>
    (\<exists>rb k. rl_reward_boost params = Some rb \<and> k \<in> fst ` set rb \<and>
       (\<forall>a. parameters_actions params = Some a \<longrightarrow> k \<notin> set a))) \<and>
   (init env base q_net q_net_target reward_net params q_cpe q_cpe_target = Inr t0 \<longrightarrow>
      cpe_attrs_present t0) \<and>
   (train env t arg = Inl e \<longrightarrow> \<not> config_error e) \<and>
   (calculate_cpes env t b s li mi d nd = Inl e' \<longrightarrow> \<not> config_error e') \<and>
   (cpe_attrs_present t \<and> train env t arg = Inl e \<longrightarrow> tensor_error e) \<and>
   (cpe_attrs_present t \<and> train env t arg = Inr (t', rep) \<longrightarrow> cpe_attrs_present t')"
proof (intro conjI impI)
  show "init env base q_net q_net_target reward_net params q_cpe q_cpe_target =
      Inl (AssertionError m) \<longleftrightarrow>
    calc_cpe_in_training base \<and>
    (reward_net = None \<and> m = ''reward_network is required for CPE'' \<or>
     reward_net \<noteq> None \<and> (q_cpe = None \<or> q_cpe_target = None) \<and>
       m = ''q_network_cpe and q_network_cpe_target are required for CPE'')"
    by (auto simp: init_Inl init_cpe_Inl)
next
  show "init env base q_net q_net_target reward_net params q_cpe q_cpe_target = Inl ValueError \<longleftrightarrow>
    (calc_cpe_in_training base \<longrightarrow>
       reward_net \<noteq> None \<and> q_cpe \<noteq> None \<and> q_cpe_target \<noteq> None \<and>
       parameters_actions params \<noteq> None \<and> parameters_actions params \<noteq> Some []) \<and>
    (\<exists>rb k. rl_reward_boost params = Some rb \<and> k \<in> fst ` set rb \<and>
       (\<forall>a. parameters_actions params = Some a \<longrightarrow> k \<notin> set a))"
    unfolding init_Inl init_cpe_Inl init_cpe_total
    by (cases "parameters_actions params") (auto simp: subset_iff)
next
  assume "init env base q_net q_net_target reward_net params q_cpe q_cpe_target = Inr t0"
  from init_Inr [OF this] show "cpe_attrs_present t0"
    by (auto simp: cpe_attrs_present_def dest: init_cpe_Inr)
next
  assume "train env t arg = Inl e"
  from train_error [OF this] show "\<not> config_error e"
    by (cases e) auto
next
  assume "calculate_cpes env t b s li mi d nd = Inl e'"
  from calculate_cpes_error [OF this] show "\<not> config_error e'"
    by (cases e') auto
next
  assume "cpe_attrs_present t \<and> train env t arg = Inl e"
  then show "tensor_error e"
    using train_error [of env t arg e] by (auto simp: cpe_attrs_present_def)
next
  assume a: "cpe_attrs_present t \<and> train env t arg = Inr (t', rep)"
  then obtain b tgt t5 li mi d nd x where
    q: "train_q_network env (t\<lparr>minibatch := minibatch t + 1\<rparr>) b tgt = Inr t5"
    and c: "calculate_cpes env t5 b (state b) li mi d nd = Inr (t', x)"
    using train_Inr [of env t arg t' rep] by blast
  from calculate_cpes_frame [OF c] train_q_network_frame [OF q] a
  show "cpe_attrs_present t'"
    by (auto simp: cpe_attrs_present_def)
qed


theorem configuration_errors_at_construction_witness:
  "init example_env example_base [0, 0, 0] [1, 2, 3] None example_parameters
     (Some [0, 0, 0]) (Some [3, 2, 1]) =
     Inl (AssertionError ''reward_network is required for CPE'') \<and>
   init example_env example_base [0, 0, 0] [1, 2, 3] (Some [0, 0, 0]) example_parameters
     None (Some [3, 2, 1]) =
     Inl (AssertionError ''q_network_cpe and q_network_cpe_target are required for CPE'') \<and>
   init example_env example_base [0, 0, 0] [1, 2, 3] (Some [0, 0, 0]) example_bad_parameters
     (Some [0, 0, 0]) (Some [3, 2, 1]) = Inl ValueError \<and>
   cpe_attrs_present example_trainer \<and>
   train example_env example_trainer (Batch example_bad_batch) = Inl RuntimeError \<and>
   tensor_error RuntimeError \<and> \<not> config_error RuntimeError \<and>
   cpe_attrs_present example_trainer_after"
proof -
  note c = configuration_errors_at_construction
  have 1: "init example_env example_base [0, 0, 0] [1, 2, 3] None example_parameters
     (Some [0, 0, 0]) (Some [3, 2, 1]) =
     Inl (AssertionError ''reward_network is required for CPE'')"
    using c [of example_env example_base "[0, 0, 0]" "[1, 2, 3]" None example_parameters
        "Some [0, 0, 0]" "Some [3, 2, 1]" "''reward_network is required for CPE''"]
    by (simp add: example_base_def)
  have 2: "init example_env example_base [0, 0, 0] [1, 2, 3] (Some [0, 0, 0]) example_parameters
     None (Some [3, 2, 1]) =
     Inl (AssertionError ''q_network_cpe and q_network_cpe_target are required for CPE'')"
    using c [of example_env example_base "[0, 0, 0]" "[1, 2, 3]" "Some [0, 0, 0]"
        example_parameters None "Some [3, 2, 1]"
        "''q_network_cpe and q_network_cpe_target are required for CPE''"]
    by (simp add: example_base_def)
  have "\<exists>rb k. rl_reward_boost example_bad_parameters = Some rb \<and> k \<in> fst ` set rb \<and>
       (\<forall>a. parameters_actions example_bad_parameters = Some a \<longrightarrow> k \<notin> set a)"
    by (rule exI [of _ "[(''B'', 2), (''D'', 1)]"], rule exI [of _ "''D''"])
      (simp add: example_bad_parameters_def example_parameters_def)
  then have 3: "init example_env example_base [0, 0, 0] [1, 2, 3] (Some [0, 0, 0])
     example_bad_parameters (Some [0, 0, 0]) (Some [3, 2, 1]) = Inl ValueError"
    using c [of example_env example_base "[0, 0, 0]" "[1, 2, 3]" "Some [0, 0, 0]"
        example_bad_parameters "Some [0, 0, 0]" "Some [3, 2, 1]"]
    by (simp add: example_base_def example_bad_parameters_def example_parameters_def)
  have 4: "cpe_attrs_present example_trainer"
    using c [where env = example_env and base = example_base and q_net = "[0, 0, 0]"
        and q_net_target = "[1, 2, 3]" and reward_net = "Some [0, 0, 0]"
        and params = example_parameters and q_cpe = "Some [0, 0, 0]"
        and q_cpe_target = "Some [3, 2, 1]" and ?t0.0 = example_trainer] example_init
    by simp
  have 5: "tensor_error RuntimeError \<and> \<not> config_error RuntimeError"
    using c [where env = example_env and t = example_trainer
        and arg = "Batch example_bad_batch" and e = RuntimeError] 4 example_bad_train
    by simp
  have 6: "cpe_attrs_present example_trainer_after"
    using c [where env = example_env and t = example_trainer
        and arg = "Batch example_batch" and t' = example_trainer_after
        and rep = example_report] 4 example_train
    by simp
  show ?thesis
    using 1 2 3 4 5 6 example_bad_train by simp
qed

subsection \<open>Soft updates of the target networks\<close>

lemma calculate_cpes_enabled:
  assumes "calculate_cpes env t b s li mi d m = Inr (t', x)" and "calc_cpe_in_training t"
  shows "\<exists>c0 c'. cpe t = Some c0 \<and> t' = t\<lparr>cpe := Some c'\<rparr> \<and>
     q_network_cpe_target c' =
       soft_update (q_network_cpe c') (q_network_cpe_target c0) (soft_update_rate t)"
  using assms
  by (auto simp: calculate_cpes_def Let_def ebind_eq_Inr split_beta
      split: option.splits list.splits)

lemma soft_update_nth:
  "i < length target_network \<Longrightarrow> i < length network \<Longrightarrow>
   soft_update network target_network r ! i = target_network ! i * (1 - r) + network ! i * r"
  by (simp add: soft_update_def)

lemma soft_update_one:
  "length network = length target_network \<Longrightarrow> soft_update network target_network 1 = network"
  by (auto simp: soft_update_def intro: nth_equalityI)

lemma soft_update_between:
  assumes "i < length target_network" "i < length network" "0 \<le> r" "r \<le> 1"
  shows "min (target_network ! i) (network ! i) \<le> soft_update network target_network r ! i \<and>
    soft_update network target_network r ! i \<le> max (target_network ! i) (network ! i)"
proof -
  let ?a = "target_network ! i" and ?b = "network ! i"
  have e: "soft_update network target_network r ! i = ?a * (1 - r) + ?b * r"
    using assms by (simp add: soft_update_nth)
  have 1: "min ?a ?b * (1 - r) \<le> ?a * (1 - r)" "min ?a ?b * r \<le> ?b * r"
    using assms by (auto intro!: mult_right_mono)
  have 2: "?a * (1 - r) \<le> max ?a ?b * (1 - r)" "?b * r \<le> max ?a ?b * r"
    using assms by (auto intro!: mult_right_mono)
  have "min ?a ?b = min ?a ?b * (1 - r) + min ?a ?b * r"
    by (simp add: algebra_simps)
  also have "\<dots> \<le> ?a * (1 - r) + ?b * r"
    using 1 by (rule add_mono)
  finally have lo: "min ?a ?b \<le> ?a * (1 - r) + ?b * r" .
  have "?a * (1 - r) + ?b * r \<le> max ?a ?b * (1 - r) + max ?a ?b * r"
    using 2 by (rule add_mono)
  also have "\<dots> = max ?a ?b"
    by (simp add: algebra_simps)
  finally have hi: "?a * (1 - r) + ?b * r \<le> max ?a ?b" .
  show ?thesis using lo hi by (simp add: e)
qed

text \<open>
  Claim C4, as amended. After a training step that returns, the parameters of the
  primary target network are the soft update of their previous value with the online
  parameters the optimizer step has just produced, and when CPE is enabled the same
  holds for the CPE target network; nothing else writes them. The rate is 1 when the
  step counter, after its increment, is below the burn-in threshold, and the configured
  \<open>tau\<close> otherwise. Parameter by parameter the soft update is
  \<open>target * (1 - rate) + online * rate\<close>; with rate 1 it returns the online parameters
  themselves (equality of real numbers), and for a rate between 0 and 1 it is a convex
  combination: every new parameter lies between its previous value and the online one.
  The code does not restrict the configured \<open>tau\<close> to that range.
\<close>

theorem target_networks_soft_update:
  assumes "train env t0 arg = Inr (t', rep)"
  shows "q_network_target t' =
      soft_update (q_network t') (q_network_target t0) (soft_update_rate t') \<and>
    (if calc_cpe_in_training t0
     then \<exists>c0 c'. cpe t0 = Some c0 \<and> cpe t' = Some c' \<and>
       q_network_cpe_target c' =
         soft_update (q_network_cpe c') (q_network_cpe_target c0) (soft_update_rate t')
     else cpe t' = cpe t0) \<and>
    soft_update_rate t' = (if minibatch t0 + 1 < reward_burnin t0 then 1 else tau t0) \<and>
    (\<forall>network target_network r i.
       i < length target_network \<and> i < length network \<longrightarrow>
       soft_update network target_network r ! i =
         target_network ! i * (1 - r) + network ! i * r) \<and>
    (\<forall>network target_network.
       length network = length target_network \<longrightarrow>
       soft_update network target_network 1 = network) \<and>
    (\<forall>network target_network r i.
       i < length target_network \<and> i < length network \<and> 0 \<le> r \<and> r \<le> 1 \<longrightarrow>
       min (target_network ! i) (network ! i) \<le> soft_update network target_network r ! i \<and>
       soft_update network target_network r ! i \<le> max (target_network ! i) (network ! i))"
proof -
  let ?t1 = "t0\<lparr>minibatch := minibatch t0 + 1\<rparr>"
  from train_Inr [OF assms] obtain b tgt t5 li mi d nd x where
    q: "train_q_network env ?t1 b tgt = Inr t5"
    and c: "calculate_cpes env t5 b (state b) li mi d nd = Inr (t', x)"
    by blast
  note f = train_q_network_frame [OF q] train_q_network_target [OF q]
  have r5: "soft_update_rate t5 = soft_update_rate ?t1"
    using f by (simp add: soft_update_rate_def)
  have r: "soft_update_rate t' = soft_update_rate ?t1"
    using calculate_cpes_frame [OF c] r5 by (auto simp: soft_update_rate_def)
  have 1: "q_network_target t' =
      soft_update (q_network t') (q_network_target t0) (soft_update_rate t')"
    using calculate_cpes_frame [OF c] f r by auto
  have 2: "if calc_cpe_in_training t0
     then \<exists>c0 c'. cpe t0 = Some c0 \<and> cpe t' = Some c' \<and>
       q_network_cpe_target c' =
         soft_update (q_network_cpe c') (q_network_cpe_target c0) (soft_update_rate t')
     else cpe t' = cpe t0"
  proof (cases "calc_cpe_in_training t0")
    case True
    then have "calc_cpe_in_training t5" using f by simp
    from calculate_cpes_enabled [OF c this] show ?thesis
      using True f r r5 by auto
  next
    case False
    then have "\<not> calc_cpe_in_training t5" using f by simp
    then have "t' = t5" using c by (simp add: calculate_cpes_def)
    then show ?thesis using False f by simp
  qed
  have 3: "soft_update_rate t' = (if minibatch t0 + 1 < reward_burnin t0 then 1 else tau t0)"
    unfolding r by (simp add: soft_update_rate_def)
  have 4: "\<forall>network target_network r i.
       i < length target_network \<and> i < length network \<and> 0 \<le> r \<and> r \<le> 1 \<longrightarrow>
       min (target_network ! i) (network ! i) \<le> soft_update network target_network r ! i \<and>
       soft_update network target_network r ! i \<le> max (target_network ! i) (network ! i)"
    using soft_update_between by blast
  show ?thesis
    using 1 2 3 4 by (simp add: soft_update_nth soft_update_one)
qed

theorem target_networks_soft_update_witness:
  "train example_env example_trainer (Batch example_batch) =
     Inr (example_trainer_after, example_report) \<and>
   train example_env example_burnin (Batch example_batch) =
     Inr (example_burnin_after, example_burnin_report) \<and>
   q_network_target example_trainer = [1, 2, 3] \<and>
   q_network example_trainer_after = [1, 39 / 10, 0] \<and>
   q_network_target example_trainer_after =
     soft_update (q_network example_trainer_after) (q_network_target example_trainer) (1 / 10) \<and>
   q_network_target example_trainer_after = [1, 219 / 100, 27 / 10] \<and>
   min (3 :: real) 0 \<le> 27 / 10 \<and> 27 / 10 \<le> max (3 :: real) 0 \<and>
   q_network_target example_burnin_after = q_network example_burnin_after \<and>
   soft_update_rate example_burnin_after = 1 \<and>
   cpe example_burnin = Some \<lparr> reward_network = [0, 0, 0], reward_network_optimizer = [],
         q_network_cpe = [0, 0, 0], q_network_cpe_target = [3, 2, 1],
         q_network_cpe_optimizer = [], reward_idx_offsets = [0] \<rparr> \<and>
   cpe example_burnin_after = Some \<lparr> reward_network = [1, 1, 1], reward_network_optimizer = [],
         q_network_cpe = [1, 1, 1], q_network_cpe_target = [1, 1, 1],
         q_network_cpe_optimizer = [], reward_idx_offsets = [0] \<rparr>"
  using target_networks_soft_update [OF example_train]
    target_networks_soft_update [OF example_burnin_train]
    example_train example_burnin_train
  by (simp add: example_defs soft_update_rate_def soft_update_def)

text \<open>
  Claim C4 as the spec states it fails for a configured rate outside \<open>[0, 1]\<close>: with
  \<open>tau = 2\<close> and no burn-in the step returns, the third target parameter was 3, the third
  online parameter is 0, and the new third target parameter is \<open>3 * (1 - 2) + 0 * 2 = -3\<close>,
  which lies outside the interval between the two and so is no convex combination of
  them.
\<close>

theorem soft_update_not_convex_counterexample:
  "train example_env example_tau2 (Batch example_batch) =
     Inr (example_tau2_after, example_report) \<and>
   tau example_tau2 = 2 \<and>
   \<not> minibatch example_tau2 + 1 < reward_burnin example_tau2 \<and>
   q_network_target example_tau2 = [1, 2, 3] \<and>
   q_network example_tau2_after = [1, 39 / 10, 0] \<and>
   q_network_target example_tau2_after = [1, 29 / 5, - 3] \<and>
   q_network_target example_tau2_after ! 2 <
     min (q_network_target example_tau2 ! 2) (q_network example_tau2_after ! 2)"
  using example_tau2_train by (simp add: example_defs)

subsection \<open>Target selection in on-policy mode\<close>

lemma masked_argmax_one_hot: "j < n \<Longrightarrow> masked_argmax q (one_hot n j) = Some j"
  unfolding masked_argmax_def find_Some_iff
  by (rule exI [of _ j]) (auto simp: one_hot_nth list_all_iff)

lemma argmax_list_one_hot: "j < n \<Longrightarrow> argmax_list (one_hot n j) = Some j"
  unfolding argmax_list_def find_Some_iff
  by (rule exI [of _ j]) (auto simp: one_hot_nth list_all_iff)

lemma select_row_one_hot:
  assumes "j < n"
  shows "select_row dq q qt (one_hot n j) =
    (if length q = n \<and> length qt = n then Inr (inner_product qt (one_hot n j), int j)
     else Inl PreconditionViolation)"
  using assms inner_product_one_hot [of j n qt] inner_product_commute [of qt "one_hot n j"]
  by (simp add: select_row_def masked_argmax_one_hot)

lemma get_max_q_values_with_target_Inr:
  "get_max_q_values_with_target t q qt m = Inr (vals, idxs) \<longleftrightarrow>
   length q = length m \<and> length qt = length m \<and> length vals = length m \<and>
   length idxs = length m \<and>
   (\<forall>i<length m. \<exists>v k. select_row (double_q_learning t) (q ! i) (qt ! i) (m ! i) = Inr (v, k) \<and>
      vals ! i = [v] \<and> idxs ! i = [k])"
proof -
  have "(\<exists>rs. length rs = length m \<and>
          (\<forall>i<length m. select_row (double_q_learning t) (q ! i) (qt ! i) (m ! i) = Inr (rs ! i)) \<and>
          map (\<lambda>r. [fst r]) rs = vals \<and> map (\<lambda>r. [snd r]) rs = idxs) \<longleftrightarrow>
        length vals = length m \<and> length idxs = length m \<and>
        (\<forall>i<length m. \<exists>v k. select_row (double_q_learning t) (q ! i) (qt ! i) (m ! i) = Inr (v, k) \<and>
           vals ! i = [v] \<and> idxs ! i = [k])" (is "?l \<longleftrightarrow> ?r")
  proof
    assume ?l
    then obtain rs where rs: "length rs = length m"
      "\<And>i. i < length m \<Longrightarrow>
         select_row (double_q_learning t) (q ! i) (qt ! i) (m ! i) = Inr (rs ! i)"
      "map (\<lambda>r. [fst r]) rs = vals" "map (\<lambda>r. [snd r]) rs = idxs"
      by blast
    show ?r
    proof (intro conjI allI impI)
      show "length vals = length m" using rs by auto
      show "length idxs = length m" using rs by auto
      fix i assume i: "i < length m"
      show "\<exists>v k. select_row (double_q_learning t) (q ! i) (qt ! i) (m ! i) = Inr (v, k) \<and>
           vals ! i = [v] \<and> idxs ! i = [k]"
        using rs(2) [OF i] rs(1) rs(3) [symmetric] rs(4) [symmetric] i
        by (intro exI [of _ "fst (rs ! i)"] exI [of _ "snd (rs ! i)"]) simp
    qed
  next
    assume r: ?r
    let ?rs = "map (\<lambda>i. (hd (vals ! i), hd (idxs ! i))) [0..<length m]"
    show ?l
    proof (intro exI [of _ ?rs] conjI allI impI)
      show "length ?rs = length m" by simp
      show "map (\<lambda>r. [fst r]) ?rs = vals"
        using r by (auto intro!: nth_equalityI)
      show "map (\<lambda>r. [snd r]) ?rs = idxs"
        using r by (auto intro!: nth_equalityI)
      fix i assume "i < length m"
      then show "select_row (double_q_learning t) (q ! i) (qt ! i) (m ! i) = Inr (?rs ! i)"
        using r by auto
    qed
  qed
  then show ?thesis
    by (auto simp: get_max_q_values_with_target_def ebind_eq_Inr emap_eq_Inr)
qed


lemma argmax_dim1_Inr:
  "argmax_dim1 x = Inr idxs \<longleftrightarrow>
   length idxs = length x \<and>
   (\<forall>i<length x. \<exists>j. argmax_list (x ! i) = Some j \<and> idxs ! i = [int j])"
  by (auto simp: argmax_dim1_def emap_eq_Inr split: option.splits) (metis option.exhaust)

text \<open>
  Claim C3. In on-policy (SARSA) mode \<^verbatim>\<open>train\<close> calls the masked-max-with-target selector
  with the next action in the place of the validity mask (lines 124 to 128). Whenever
  that call returns, every sample whose next action is one-hot at an index \<open>j\<close> gets as
  its next-state value the inner product of the target network's next-state value
  vector with that one-hot vector, and as its selected action index \<open>j\<close>, which is the
  argmax of the one-hot vector. When every next action is one-hot and the widths agree
  the call returns, and its index column is \<^verbatim>\<open>next_action.argmax(dim=1)\<close>.
\<close>

theorem on_policy_selection:
  assumes "\<not> maxq_learning t"
  shows "(\<forall>vals idxs i j.
       next_q_values env t b = Inr (vals, idxs) \<and> i < length (next_action b) \<and>
       j < length (next_action b ! i) \<and>
       next_action b ! i = one_hot (length (next_action b ! i)) j \<longrightarrow>
       vals ! i = [inner_product (q_forward env (q_network_target t) (next_state b) ! i)
                     (next_action b ! i)] \<and>
       idxs ! i = [int j] \<and> argmax_list (next_action b ! i) = Some j) \<and>
    (length (q_forward env (q_network t) (next_state b)) = length (next_action b) \<and>
     length (q_forward env (q_network_target t) (next_state b)) = length (next_action b) \<and>
     (\<forall>i<length (next_action b).
        length (q_forward env (q_network t) (next_state b) ! i) = length (next_action b ! i) \<and>
        length (q_forward env (q_network_target t) (next_state b) ! i) =
          length (next_action b ! i) \<and>
        (\<exists>j<length (next_action b ! i).
           next_action b ! i = one_hot (length (next_action b ! i)) j)) \<longrightarrow>
     (\<exists>vals idxs. next_q_values env t b = Inr (vals, idxs) \<and>
        argmax_dim1 (next_action b) = Inr idxs))"
proof (intro conjI allI impI)
  let ?q = "q_forward env (q_network t) (next_state b)"
  let ?qt = "q_forward env (q_network_target t) (next_state b)"
  let ?na = "next_action b"
  have n: "next_q_values env t b = get_max_q_values_with_target t ?q ?qt ?na"
    using assms by (simp add: next_q_values_def get_detached_q_values_def)
  {
    fix vals idxs i j
    assume a: "next_q_values env t b = Inr (vals, idxs) \<and> i < length ?na \<and>
       j < length (?na ! i) \<and> ?na ! i = one_hot (length (?na ! i)) j"
    then obtain v k where
      s: "select_row (double_q_learning t) (?q ! i) (?qt ! i) (?na ! i) = Inr (v, k)"
      and v: "vals ! i = [v]" "idxs ! i = [k]"
      unfolding n get_max_q_values_with_target_Inr by blast
    have o: "?na ! i = one_hot (length (?na ! i)) j" and j: "j < length (?na ! i)"
      using a by auto
    have "select_row (double_q_learning t) (?q ! i) (?qt ! i) (one_hot (length (?na ! i)) j) =
        Inr (v, k)"
      using s o by simp
    then have "v = inner_product (?qt ! i) (one_hot (length (?na ! i)) j) \<and> k = int j"
      unfolding select_row_one_hot [OF j] by (auto split: if_splits)
    then show "vals ! i = [inner_product (?qt ! i) (?na ! i)]" and "idxs ! i = [int j]"
      using v o by auto
    show "argmax_list (?na ! i) = Some j"
      using argmax_list_one_hot [OF j] o by simp
  }
  assume h: "length ?q = length ?na \<and> length ?qt = length ?na \<and>
     (\<forall>i<length ?na.
        length (?q ! i) = length (?na ! i) \<and> length (?qt ! i) = length (?na ! i) \<and>
        (\<exists>j<length (?na ! i). ?na ! i = one_hot (length (?na ! i)) j))"
  define f where "f i = the (argmax_list (?na ! i))" for i
  have f: "f i < length (?na ! i) \<and> ?na ! i = one_hot (length (?na ! i)) (f i) \<and>
      argmax_list (?na ! i) = Some (f i)" if "i < length ?na" for i
  proof -
    from h that obtain j where j: "j < length (?na ! i)" "?na ! i = one_hot (length (?na ! i)) j"
      by blast
    then have "argmax_list (?na ! i) = Some j"
      using argmax_list_one_hot [OF j(1)] by simp
    then show ?thesis using j by (simp add: f_def)
  qed
  let ?vals = "map (\<lambda>i. [inner_product (?qt ! i) (?na ! i)]) [0..<length ?na]"
  let ?idxs = "map (\<lambda>i. [int (f i)]) [0..<length ?na]"
  have s: "select_row (double_q_learning t) (?q ! i) (?qt ! i) (?na ! i) =
      Inr (inner_product (?qt ! i) (?na ! i), int (f i))" if "i < length ?na" for i
  proof -
    have "select_row (double_q_learning t) (?q ! i) (?qt ! i)
        (one_hot (length (?na ! i)) (f i)) =
      Inr (inner_product (?qt ! i) (one_hot (length (?na ! i)) (f i)), int (f i))"
      using select_row_one_hot [of "f i" "length (?na ! i)"] f [OF that] h that by simp
    then show ?thesis using f [OF that] by simp
  qed
  have 1: "next_q_values env t b = Inr (?vals, ?idxs)"
    unfolding n get_max_q_values_with_target_Inr using h s by simp
  have 2: "argmax_dim1 ?na = Inr ?idxs"
    unfolding argmax_dim1_Inr using f by simp
  show "\<exists>vals idxs. next_q_values env t b = Inr (vals, idxs) \<and>
        argmax_dim1 (next_action b) = Inr idxs"
    using 1 2 by blast
qed

lemma example_sarsa_next_q_values:
  "next_q_values example_env example_sarsa example_batch = Inr ([[1], [3]], [[0], [2]])"
  by (simp add: example_defs operation_defs Let_def)

theorem on_policy_selection_witness:
  "next_q_values example_env example_sarsa example_batch = Inr ([[1], [3]], [[0], [2]]) \<and>
   [[1], [3]] ! 1 = [inner_product ([[1, 2, 3], [1, 2, 3]] ! 1) [0, 0, 1]] \<and>
   [[0], [2::int]] ! 1 = [2] \<and> argmax_list [0, 0, 1] = Some 2"
proof -
  have m: "\<not> maxq_learning example_sarsa"
    by (simp add: example_defs)
  have h: "next_q_values example_env example_sarsa example_batch =
      Inr ([[1], [3]], [[0], [2]]) \<and>
    1 < length (next_action example_batch) \<and> 2 < length (next_action example_batch ! 1) \<and>
    next_action example_batch ! 1 = one_hot (length (next_action example_batch ! 1)) 2"
    using example_sarsa_next_q_values
    by (simp add: example_batch_def one_hot_def numeral_3_eq_3)
  note r = on_policy_selection [OF m, THEN conjunct1, rule_format, OF h]
  have q: "q_forward example_env (q_network_target example_sarsa) (next_state example_batch) =
      [[1, 2, 3], [1, 2, 3]]"
    by (simp add: example_defs)
  have n: "next_action example_batch ! 1 = [0, 0, 1]"
    by (simp add: example_defs)
  show ?thesis
    using r example_sarsa_next_q_values unfolding q n by simp
qed

subsection \<open>Propensities\<close>

lemma softmax_row_Inr:
  assumes "softmax_row temp x m = Inr p"
  shows "length p = length m \<and> (\<forall>j<length m. m ! j = 0 \<longrightarrow> p ! j = 0) \<and>
    (\<Sum>j | j < length m \<and> m ! j \<noteq> 0. p ! j) = 1"
proof -
  define e where "e = map2 (\<lambda>v k. if k = 0 then 0 else exp (v / temp)) x m"
  define n where "n = length m"
  from assms have l: "length x = n" and v: "\<not> list_all (\<lambda>k. k = 0) m"
    and p: "p = map (\<lambda>a. a / sum_list e) e"
    by (auto simp: softmax_row_def Let_def e_def n_def split: if_splits)
  have le: "length e = n" by (simp add: e_def l n_def)
  have e: "e ! j = (if m ! j = 0 then 0 else exp (x ! j / temp))" if "j < n" for j
    using that l by (simp add: e_def n_def)
  have s: "sum_list e = (\<Sum>j = 0..<n. e ! j)"
    by (simp add: sum_list_sum_nth le)
  from v obtain j0 where j0: "j0 < n" "m ! j0 \<noteq> 0"
    by (auto simp: list_all_length n_def)
  have nonneg: "0 \<le> e ! j" if "j < n" for j
    using e [OF that] by simp
  have "sum_list e \<noteq> 0"
  proof
    assume "sum_list e = 0"
    then have "(\<Sum>j = 0..<n. e ! j) = 0" by (simp add: s)
    then have "\<forall>j\<in>{0..<n}. e ! j = 0"
      using nonneg by (subst (asm) sum_nonneg_eq_0_iff) auto
    then have "e ! j0 = 0" using j0 by simp
    then show False using e [OF j0(1)] j0(2) by simp
  qed
  then have pos: "sum_list e \<noteq> 0" .
  have pj: "p ! j = e ! j / sum_list e" if "j < n" for j
    using that le by (simp add: p)
  have "(\<Sum>j | j < n \<and> m ! j \<noteq> 0. p ! j) = (\<Sum>j | j < n \<and> m ! j \<noteq> 0. e ! j / sum_list e)"
    by (rule sum.cong) (auto simp: pj)
  also have "\<dots> = (\<Sum>j = 0..<n. e ! j / sum_list e)"
    by (rule sum.mono_neutral_left) (auto simp: e)
  also have "\<dots> = (\<Sum>j = 0..<n. e ! j) / sum_list e"
    by (simp add: sum_divide_distrib)
  also have "\<dots> = 1"
    using pos by (simp add: s)
  finally have "(\<Sum>j | j < n \<and> m ! j \<noteq> 0. p ! j) = 1" .
  moreover have "p ! j = 0" if "j < n" "m ! j = 0" for j
    using pj [OF that(1)] e [OF that(1)] that(2) by simp
  moreover have "length p = n" by (simp add: p le)
  ultimately show ?thesis by (simp add: n_def)
qed

lemma masked_softmax_Inr:
  "masked_softmax x m temp = Inr p \<longleftrightarrow>
   length x = length m \<and> length p = length m \<and>
   (\<forall>i<length m. softmax_row temp (x ! i) (m ! i) = Inr (p ! i))"
  by (auto simp: masked_softmax_def emap_eq_Inr)

lemma calculate_cpes_propensities:
  assumes "calculate_cpes env t b s li mi d nd = Inr (t', rl, mr, Some p)"
  shows "\<exists>scores. all_action_scores t = Some scores \<and>
    masked_softmax scores (validity_mask t b) (rl_temperature t) = Inr p"
  using assms
  by (auto simp: calculate_cpes_def Let_def ebind_eq_Inr split_beta validity_mask_def
      split: if_splits option.splits list.splits)

lemma calculate_cpes_enabled_Some:
  assumes "calculate_cpes env t b s li mi d nd = Inr (t', rl, mr, mp)"
    and "calc_cpe_in_training t"
  shows "\<exists>p. mp = Some p"
  using assms
  by (auto simp: calculate_cpes_def Let_def ebind_eq_Inr split_beta
      split: option.splits list.splits)

lemma masked_softmax_rows:
  assumes "masked_softmax x m temp = Inr p"
  shows "length p = length m \<and>
    (\<forall>i<length m.
       length (p ! i) = length (m ! i) \<and>
       (\<Sum>j | j < length (m ! i) \<and> m ! i ! j \<noteq> 0. p ! i ! j) = 1 \<and>
       (\<forall>j<length (m ! i). m ! i ! j = 0 \<longrightarrow> p ! i ! j = 0))"
proof -
  from assms have l: "length p = length m"
    and r: "\<And>i. i < length m \<Longrightarrow> softmax_row temp (x ! i) (m ! i) = Inr (p ! i)"
    by (auto simp: masked_softmax_Inr)
  show ?thesis
    using l softmax_row_Inr [OF r] by auto
qed

lemma masked_softmax_total:
  assumes "length x = length m"
    and "\<forall>i<length m. length (x ! i) = length (m ! i) \<and> (\<exists>j<length (m ! i). m ! i ! j \<noteq> 0)"
  shows "\<exists>p. masked_softmax x m temp = Inr p"
proof -
  have "\<exists>q. softmax_row temp (x ! i) (m ! i) = Inr q" if "i < length m" for i
    using assms(2) that by (auto simp: softmax_row_def Let_def list_all_length)
  then obtain f where f: "\<And>i. i < length m \<Longrightarrow> softmax_row temp (x ! i) (m ! i) = Inr (f i)"
    by metis
  have "masked_softmax x m temp = Inr (map f [0..<length m])"
    unfolding masked_softmax_Inr using assms(1) f by simp
  then show ?thesis by blast
qed

text \<open>
  Claim C6. A call of \<^verbatim>\<open>calculate_cpes\<close> with CPE enabled that returns does return model
  propensities, and for a positive temperature they are the masked softmax of the
  detached action scores \<^verbatim>\<open>self.all_action_scores\<close> under the validity mask of the mode:
  in every row the propensities of the valid actions sum to 1 and the propensity of
  every invalid action is 0. In a training step with CPE enabled that returns, the
  propensities reported are this masked softmax of the values the primary network gives
  the current state in the forward pass of the step. The masked softmax itself returns
  whenever the widths agree and every row has a valid action.
\<close>

theorem model_propensities_masked_softmax:
  "(calculate_cpes env t b s li mi d nd = Inr (t', rl, mr, mp) \<and> calc_cpe_in_training t \<and>
    0 < rl_temperature t \<longrightarrow>
    (\<exists>p scores. mp = Some p \<and> all_action_scores t = Some scores \<and>
       masked_softmax scores (validity_mask t b) (rl_temperature t) = Inr p \<and>
       length p = length (validity_mask t b) \<and>
       (\<forall>i<length p.
          length (p ! i) = length (validity_mask t b ! i) \<and>
          (\<Sum>j | j < length (validity_mask t b ! i) \<and> validity_mask t b ! i ! j \<noteq> 0.
             p ! i ! j) = 1 \<and>
          (\<forall>j<length (validity_mask t b ! i).
             validity_mask t b ! i ! j = 0 \<longrightarrow> p ! i ! j = 0)))) \<and>
   (train env t0 (Batch b) = Inr (t1, rep) \<and> calc_cpe_in_training t0 \<and>
    0 < rl_temperature t0 \<longrightarrow>
    (\<exists>p. model_propensities rep = Some p \<and>
       masked_softmax (q_forward env (q_network t0) (state b)) (validity_mask t0 b)
         (rl_temperature t0) = Inr p \<and>
       length p = length (validity_mask t0 b) \<and>
       (\<forall>i<length p.
          length (p ! i) = length (validity_mask t0 b ! i) \<and>
          (\<Sum>j | j < length (validity_mask t0 b ! i) \<and> validity_mask t0 b ! i ! j \<noteq> 0.
             p ! i ! j) = 1 \<and>
          (\<forall>j<length (validity_mask t0 b ! i).
             validity_mask t0 b ! i ! j = 0 \<longrightarrow> p ! i ! j = 0)))) \<and>
   (0 < temp \<and> length x = length m \<and>
    (\<forall>i<length m. length (x ! i) = length (m ! i) \<and> (\<exists>j<length (m ! i). m ! i ! j \<noteq> 0)) \<longrightarrow>
    (\<exists>p. masked_softmax x m temp = Inr p))"
proof (intro conjI impI)
  assume a: "calculate_cpes env t b s li mi d nd = Inr (t', rl, mr, mp) \<and>
    calc_cpe_in_training t \<and> 0 < rl_temperature t"
  then obtain p where p: "mp = Some p"
    using calculate_cpes_enabled_Some [of env t b s li mi d nd t' rl mr mp] by blast
  from a calculate_cpes_propensities [of env t b s li mi d nd t' rl mr p] p
  obtain scores where s: "all_action_scores t = Some scores"
    and m: "masked_softmax scores (validity_mask t b) (rl_temperature t) = Inr p"
    by blast
  show "\<exists>p scores. mp = Some p \<and> all_action_scores t = Some scores \<and>
       masked_softmax scores (validity_mask t b) (rl_temperature t) = Inr p \<and>
       length p = length (validity_mask t b) \<and>
       (\<forall>i<length p.
          length (p ! i) = length (validity_mask t b ! i) \<and>
          (\<Sum>j | j < length (validity_mask t b ! i) \<and> validity_mask t b ! i ! j \<noteq> 0.
             p ! i ! j) = 1 \<and>
          (\<forall>j<length (validity_mask t b ! i).
             validity_mask t b ! i ! j = 0 \<longrightarrow> p ! i ! j = 0))"
    using p s m masked_softmax_rows [OF m] by auto
next
  assume a: "train env t0 (Batch b) = Inr (t1, rep) \<and> calc_cpe_in_training t0 \<and>
    0 < rl_temperature t0"
  let ?t1 = "t0\<lparr>minibatch := minibatch t0 + 1\<rparr>"
  from train_Inr [of env t0 "Batch b" t1 rep] a
  obtain rewards tgt t5 li mi rl mr mp midx where
    q: "train_q_network env ?t1 b tgt = Inr t5"
    and c: "calculate_cpes env t5 b (state b) li mi (full_like rewards (gamma t0))
      (to_float (not_terminal b)) = Inr (t1, rl, mr, mp)"
    and r: "rep = \<lparr> td_loss = loss t1, reward_loss = rl, logged_actions = li,
            logged_propensities = action_probability b, logged_rewards = rewards,
            model_propensities = mp, model_rewards = mr,
            model_values = all_action_scores t1, model_action_idxs = midx \<rparr>"
    by (simp del: ex_simps) blast
  note f = train_q_network_frame [OF q]
  have e: "calc_cpe_in_training t5" using f a by simp
  from calculate_cpes_enabled_Some [OF c e] obtain p where p: "mp = Some p" by blast
  from calculate_cpes_propensities [OF c [unfolded p]] f
  have m5: "masked_softmax (q_forward env (q_network t0) (state b)) (validity_mask t5 b)
      (rl_temperature t0) = Inr p"
    by auto
  have v: "validity_mask t5 b = validity_mask t0 b"
    using f by (simp add: validity_mask_def)
  have m: "masked_softmax (q_forward env (q_network t0) (state b)) (validity_mask t0 b)
      (rl_temperature t0) = Inr p"
    using m5 by (simp add: v)
  have mp: "model_propensities rep = Some p"
    by (simp add: r p)
  show "\<exists>p. model_propensities rep = Some p \<and>
       masked_softmax (q_forward env (q_network t0) (state b)) (validity_mask t0 b)
         (rl_temperature t0) = Inr p \<and>
       length p = length (validity_mask t0 b) \<and>
       (\<forall>i<length p.
          length (p ! i) = length (validity_mask t0 b ! i) \<and>
          (\<Sum>j | j < length (validity_mask t0 b ! i) \<and> validity_mask t0 b ! i ! j \<noteq> 0.
             p ! i ! j) = 1 \<and>
          (\<forall>j<length (validity_mask t0 b ! i).
             validity_mask t0 b ! i ! j = 0 \<longrightarrow> p ! i ! j = 0))"
    using mp m masked_softmax_rows [OF m] by auto
next
  assume "0 < temp \<and> length x = length m \<and>
    (\<forall>i<length m. length (x ! i) = length (m ! i) \<and> (\<exists>j<length (m ! i). m ! i ! j \<noteq> 0))"
  then show "\<exists>p. masked_softmax x m temp = Inr p"
    using masked_softmax_total [of x m temp] by blast
qed

lemma example_calculate_cpes:
  "calculate_cpes example_env example_scored example_batch (state example_batch)
     [[1], [0]] [[0], [1]] [[9 / 10], [9 / 10]] [[1], [0]] =
   Inr (example_scored_after, Some 1, Some [[0, 0, 0], [0, 0, 0]],
        Some [[1 / 2, 1 / 2, 0], [1 / 3, 1 / 3, 1 / 3]])"
  by (simp add: example_defs operation_defs Let_def)

theorem model_propensities_masked_softmax_witness:
  "calculate_cpes example_env example_scored example_batch (state example_batch)
     [[1], [0]] [[0], [1]] [[9 / 10], [9 / 10]] [[1], [0]] =
     Inr (example_scored_after, Some 1, Some [[0, 0, 0], [0, 0, 0]],
          Some [[1 / 2, 1 / 2, 0], [1 / 3, 1 / 3, 1 / 3]]) \<and>
   calc_cpe_in_training example_scored \<and> 0 < rl_temperature example_scored \<and>
   all_action_scores example_scored = Some [[0, 0, 0], [0, 0, 0]] \<and>
   validity_mask example_scored example_batch = [[1, 1, 0], [1, 1, 1]] \<and>
   train example_env example_trainer (Batch example_batch) =
     Inr (example_trainer_after, example_report) \<and>
   q_forward example_env (q_network example_trainer) (state example_batch) =
     [[0, 0, 0], [0, 0, 0]] \<and>
   model_propensities example_report = Some [[1 / 2, 1 / 2, 0], [1 / 3, 1 / 3, 1 / 3]] \<and>
   masked_softmax [[0, 0, 0], [0, 0, 0]] [[1, 1, 0], [1, 1, 1]] 1 =
     Inr [[1 / 2, 1 / 2, 0], [1 / 3, 1 / 3, 1 / 3]] \<and>
   (\<Sum>j | j < 3 \<and> [1, 1, 0 :: real] ! j \<noteq> 0. [1 / 2, 1 / 2, 0 :: real] ! j) = 1 \<and>
   (\<Sum>j | j < 3 \<and> [1, 1, 1 :: real] ! j \<noteq> 0. [1 / 3, 1 / 3, 1 / 3 :: real] ! j) = 1 \<and>
   [1 / 2, 1 / 2, 0 :: real] ! 2 = 0"
proof -
  note c = model_propensities_masked_softmax
  have h1: "calculate_cpes example_env example_scored example_batch (state example_batch)
     [[1], [0]] [[0], [1]] [[9 / 10], [9 / 10]] [[1], [0]] =
     Inr (example_scored_after, Some 1, Some [[0, 0, 0], [0, 0, 0]],
          Some [[1 / 2, 1 / 2, 0], [1 / 3, 1 / 3, 1 / 3]]) \<and>
    calc_cpe_in_training example_scored \<and> 0 < rl_temperature example_scored"
    using example_calculate_cpes by (simp add: example_defs)
  have v: "validity_mask example_scored example_batch = [[1, 1, 0], [1, 1, 1]]"
    "validity_mask example_trainer example_batch = [[1, 1, 0], [1, 1, 1]]"
    by (simp_all add: validity_mask_def example_defs)
  have a: "all_action_scores example_scored = Some [[0, 0, 0], [0, 0, 0]]"
    "rl_temperature example_scored = 1" "rl_temperature example_trainer = 1"
    "q_forward example_env (q_network example_trainer) (state example_batch) =
       [[0, 0, 0], [0, 0, 0]]"
    by (simp_all add: example_defs)
  from c [THEN conjunct1, rule_format, OF h1]
  have m: "masked_softmax [[0, 0, 0], [0, 0, 0]] [[1, 1, 0], [1, 1, 1]] 1 =
      Inr [[1 / 2, 1 / 2, 0], [1 / 3, 1 / 3, 1 / 3]]"
    and r: "\<forall>i<2. (\<Sum>j | j < length ([[1, 1, 0], [1, 1, 1 :: real]] ! i) \<and>
          [[1, 1, 0], [1, 1, 1 :: real]] ! i ! j \<noteq> 0.
          [[1 / 2, 1 / 2, 0], [1 / 3, 1 / 3, 1 / 3 :: real]] ! i ! j) = 1 \<and>
       (\<forall>j<length ([[1, 1, 0], [1, 1, 1 :: real]] ! i).
          [[1, 1, 0], [1, 1, 1 :: real]] ! i ! j = 0 \<longrightarrow>
          [[1 / 2, 1 / 2, 0], [1 / 3, 1 / 3, 1 / 3 :: real]] ! i ! j = 0)"
    unfolding v a by auto
  have h2: "train example_env example_trainer (Batch example_batch) =
      Inr (example_trainer_after, example_report) \<and>
    calc_cpe_in_training example_trainer \<and> 0 < rl_temperature example_trainer"
    using example_train by (simp add: example_defs)
  from c [THEN conjunct2, THEN conjunct1, rule_format, OF h2] m
  have p: "model_propensities example_report = Some [[1 / 2, 1 / 2, 0], [1 / 3, 1 / 3, 1 / 3]]"
    unfolding v a by auto
  from r [rule_format, of 0] r [rule_format, of 1] m p h1 h2 v a show ?thesis
    by (simp add: numeral_3_eq_3)
qed

subsection \<open>The targets of the CPE value model\<close>

lemma if_Inr_Inl_eq_Inr: "(if c then Inr a else Inl e) = Inr b \<longleftrightarrow> c \<and> a = b"
  by simp

lemma gather_row_Inr:
  "gather_row r ix = Inr out \<longleftrightarrow>
   length out = length ix \<and>
   (\<forall>m<length ix. 0 \<le> ix ! m \<and> ix ! m < int (length r) \<and> out ! m = r ! nat (ix ! m))"
  unfolding gather_row_def emap_eq_Inr if_Inr_Inl_eq_Inr by auto

lemma gather_dim1_Inr:
  "gather_dim1 x ix = Inr out \<longleftrightarrow>
   length ix \<le> length x \<and> length out = length ix \<and>
   (\<forall>i<length ix. gather_row (x ! i) (ix ! i) = Inr (out ! i))"
  by (auto simp: gather_dim1_def emap_eq_Inr)

lemma bcast_offsets:
  assumes "bcast (+) [offs] idxs = Inr ix"
    and "\<And>i. i < length idxs \<Longrightarrow> length (idxs ! i) = 1"
  shows "length ix = length idxs \<and>
    (\<forall>i<length idxs. ix ! i = map (\<lambda>off. off + idxs ! i ! 0) offs)"
proof -
  have "bcast_row (+) offs (idxs ! i) = Inr (map (\<lambda>off. off + idxs ! i ! 0) offs)"
    if "i < length idxs" for i
  proof -
    have "idxs ! i = [idxs ! i ! 0]"
      using assms(2) [OF that] by (simp add: length_one_conv)
    then show ?thesis
      using bcast_row_single_right [of "(+)" offs "idxs ! i ! 0"] by simp
  qed
  then show ?thesis
    using assms(1) by (auto simp: bcast_single_left emap_eq_Inr)
qed

lemma bcast_column_right:
  assumes "bcast f A B = Inr C" and "length A = length B"
    and "\<And>i. i < length B \<Longrightarrow> length (B ! i) = 1"
  shows "length C = length A \<and> (\<forall>i<length A. C ! i = map (\<lambda>x. f x (B ! i ! 0)) (A ! i))"
proof -
  have "bcast_row f (A ! i) (B ! i) = Inr (map (\<lambda>x. f x (B ! i ! 0)) (A ! i))"
    if "i < length B" for i
  proof -
    have "B ! i = [B ! i ! 0]"
      using assms(3) [OF that] by (simp add: length_one_conv)
    then show ?thesis
      using bcast_row_single_right [of f "A ! i" "B ! i ! 0"] by simp
  qed
  then show ?thesis
    using assms(1,2) by (auto simp: bcast_same_eq_Inr)
qed

lemma bcast_column_left:
  assumes "bcast f A B = Inr C" and "length A = length B"
    and "\<And>i. i < length A \<Longrightarrow> length (A ! i) = 1"
  shows "length C = length A \<and> (\<forall>i<length A. C ! i = map (f (A ! i ! 0)) (B ! i))"
proof -
  have "bcast_row f (A ! i) (B ! i) = Inr (map (f (A ! i ! 0)) (B ! i))"
    if "i < length A" for i
  proof -
    have "A ! i = [A ! i ! 0]"
      using assms(3) [OF that] by (simp add: length_one_conv)
    then show ?thesis
      using bcast_row_single_left [of f "A ! i ! 0" "B ! i"] by simp
  qed
  then show ?thesis
    using assms(1,2) by (auto simp: bcast_same_eq_Inr)
qed

lemma bcast_same_width:
  assumes "bcast f A B = Inr C" and "length A = length B"
    and "\<And>i. i < length A \<Longrightarrow> length (A ! i) = length (B ! i)"
  shows "length C = length A \<and> (\<forall>i<length A. C ! i = map2 f (A ! i) (B ! i))"
  using assms by (auto simp: bcast_same_eq_Inr bcast_row_same)

lemma target_metric_q_values_entries:
  assumes r: "target_metric_q_values env t c states vals idxs discount nd = Inr tgt"
    and l: "length vals = length idxs \<and> length discount = length idxs \<and>
      length nd = length idxs"
    and w: "\<forall>i<length idxs. length (idxs ! i) = 1 \<and> length (nd ! i) = 1 \<and>
      length (discount ! i) = 1 \<and> length (vals ! i) = length (reward_idx_offsets c)"
  shows "length tgt = length idxs \<and>
    (minibatch t < reward_burnin t \<longrightarrow> tgt = vals) \<and>
    (\<forall>i<length idxs. \<forall>m<length (reward_idx_offsets c).
       0 \<le> reward_idx_offsets c ! m + idxs ! i ! 0 \<and>
       reward_idx_offsets c ! m + idxs ! i ! 0 <
         int (length (cpe_forward env (q_network_cpe_target c) states ! i)) \<and>
       tgt ! i ! m =
         (if minibatch t < reward_burnin t then vals ! i ! m
          else vals ! i ! m + discount ! i ! 0 *
            (cpe_forward env (q_network_cpe_target c) states ! i !
               nat (reward_idx_offsets c ! m + idxs ! i ! 0) * nd ! i ! 0)))"
proof -
  let ?tq = "cpe_forward env (q_network_cpe_target c) states"
  let ?offs = "reward_idx_offsets c"
  let ?n = "length idxs"
  from r obtain ix mq fl where
    ix: "bcast (+) [?offs] idxs = Inr ix"
    and mq: "gather_dim1 ?tq ix = Inr mq"
    and fl: "bcast (*) mq nd = Inr fl"
    and tg: "(if minibatch t < reward_burnin t then Inr vals
         else ebind (bcast (*) discount fl) (\<lambda>d. bcast (+) vals d)) = Inr tgt"
    by (auto simp: target_metric_q_values_def Let_def ebind_eq_Inr)
  have ixn: "length ix = ?n" "\<And>i. i < ?n \<Longrightarrow> ix ! i = map (\<lambda>off. off + idxs ! i ! 0) ?offs"
    using bcast_offsets [OF ix] w by auto
  have mqn: "length mq = ?n"
    and g: "\<And>i. i < ?n \<Longrightarrow> gather_row (?tq ! i) (ix ! i) = Inr (mq ! i)"
    using mq ixn(1) by (auto simp: gather_dim1_Inr)
  have mqi: "length (mq ! i) = length ?offs \<and>
      (\<forall>m<length ?offs. 0 \<le> ?offs ! m + idxs ! i ! 0 \<and>
         ?offs ! m + idxs ! i ! 0 < int (length (?tq ! i)) \<and>
         mq ! i ! m = ?tq ! i ! nat (?offs ! m + idxs ! i ! 0))" if "i < ?n" for i
    using g [OF that] ixn(2) [OF that] by (simp add: gather_row_Inr)
  have fln: "length fl = ?n"
    and fli: "\<And>i. i < ?n \<Longrightarrow> fl ! i = map (\<lambda>x. x * nd ! i ! 0) (mq ! i)"
    using bcast_column_right [OF fl] mqn l w by auto
  show ?thesis
  proof (cases "minibatch t < reward_burnin t")
    case True
    then have "tgt = vals" using tg by simp
    then show ?thesis using True l mqi by simp
  next
    case False
    then obtain d where d: "bcast (*) discount fl = Inr d" and s: "bcast (+) vals d = Inr tgt"
      using tg by (auto simp: ebind_eq_Inr)
    have dn: "length d = ?n"
      and di: "\<And>i. i < ?n \<Longrightarrow> d ! i = map ((*) (discount ! i ! 0)) (fl ! i)"
      using bcast_column_left [OF d] fln l w by auto
    have dw: "length (vals ! i) = length (d ! i)" if "i < ?n" for i
      using di [OF that] fli [OF that] mqi [OF that] w that by simp
    have tn: "length tgt = ?n"
      and ti: "\<And>i. i < ?n \<Longrightarrow> tgt ! i = map2 (+) (vals ! i) (d ! i)"
      using bcast_same_width [OF s] dn l dw by auto
    have "tgt ! i ! m = vals ! i ! m + discount ! i ! 0 *
        (?tq ! i ! nat (?offs ! m + idxs ! i ! 0) * nd ! i ! 0)"
      if "i < ?n" "m < length ?offs" for i m
      using ti [OF that(1)] di [OF that(1)] fli [OF that(1)] mqi [OF that(1)] w that
      by simp
    then show ?thesis
      using False tn mqi by simp
  qed
qed

lemma example_target_metric_q_values:
  "target_metric_q_values example_env (example_trainer\<lparr>minibatch := 1\<rparr>) example_two_metrics
     (state example_batch) [[1, 5], [1, 5]] [[0], [1]] [[9 / 10], [9 / 10]] [[1], [0]] =
   Inr [[37 / 10, 32], [1, 5]]"
  by (simp add: example_defs operation_defs Let_def)

lemma target_metric_q_values_cong:
  "minibatch t = minibatch u \<Longrightarrow> reward_burnin t = reward_burnin u \<Longrightarrow>
   q_network_cpe_target c = q_network_cpe_target c' \<Longrightarrow>
   reward_idx_offsets c = reward_idx_offsets c' \<Longrightarrow>
   target_metric_q_values env t c s vals idxs d nd =
     target_metric_q_values env u c' s vals idxs d nd"
  by (simp add: target_metric_q_values_def)

lemma calculate_cpes_Inr:
  assumes "calculate_cpes env t b s li mi d nd = Inr (t', x)" and "calc_cpe_in_training t"
  shows "\<exists>c vals lix tg c'. cpe t = Some c \<and> cpe t' = Some c' \<and>
     (case metrics b of None \<Rightarrow> Inr (reward b) | Some m \<Rightarrow> cat_dim1 (reward b) m) = Inr vals \<and>
     bcast (+) [reward_idx_offsets c] li = Inr lix \<and>
     target_metric_q_values env t c s vals mi d nd = Inr tg \<and>
     q_network_cpe c' =
       fst (cpe_backward_step env (q_network_cpe c) (q_network_cpe_optimizer c) s lix tg)"
proof -
  from assms obtain c where c: "cpe t = Some c"
    by (auto simp: calculate_cpes_def split: option.splits)
  define c1 where "c1 = c\<lparr>reward_network := fst (reward_backward_step env (reward_network c)
      (reward_network_optimizer c) s
      (case bcast (+) [reward_idx_offsets c] li of Inr lix \<Rightarrow> lix | Inl _ \<Rightarrow> [])
      (case (case metrics b of None \<Rightarrow> Inr (reward b) | Some m \<Rightarrow> cat_dim1 (reward b) m) of
         Inr v \<Rightarrow> v | Inl _ \<Rightarrow> [])),
    reward_network_optimizer := snd (reward_backward_step env (reward_network c)
      (reward_network_optimizer c) s
      (case bcast (+) [reward_idx_offsets c] li of Inr lix \<Rightarrow> lix | Inl _ \<Rightarrow> [])
      (case (case metrics b of None \<Rightarrow> Inr (reward b) | Some m \<Rightarrow> cat_dim1 (reward b) m) of
         Inr v \<Rightarrow> v | Inl _ \<Rightarrow> []))\<rparr>"
  have f: "q_network_cpe_target c1 = q_network_cpe_target c"
    "reward_idx_offsets c1 = reward_idx_offsets c" "q_network_cpe c1 = q_network_cpe c"
    "q_network_cpe_optimizer c1 = q_network_cpe_optimizer c"
    by (simp_all add: c1_def)
  from assms c obtain vals lix tg c' where
    "(case metrics b of None \<Rightarrow> Inr (reward b) | Some m \<Rightarrow> cat_dim1 (reward b) m) = Inr vals"
    "bcast (+) [reward_idx_offsets c] li = Inr lix"
    "target_metric_q_values env t c1 s vals mi d nd = Inr tg"
    "cpe t' = Some c'"
    "q_network_cpe c' =
       fst (cpe_backward_step env (q_network_cpe c1) (q_network_cpe_optimizer c1) s lix tg)"
    by (auto simp: calculate_cpes_def Let_def ebind_eq_Inr split_beta c1_def
        split: option.splits list.splits)
  then show ?thesis
    using c f target_metric_q_values_cong [of t t c1 c env s vals mi d nd] by auto
qed

text \<open>
  Claim C5. In the first part \<open>idxs\<close> is a column of action indices, \<open>vals\<close> the
  multi-metric reward tensor, \<open>c\<close> the CPE attributes and \<open>t\<close> the trainer after the
  increment of the step counter. Whenever the per-metric target is constructed on
  well-shaped arguments, for every sample \<open>i\<close> and every metric \<open>m\<close> the index
  \<open>offset m + idxs i\<close> lies inside the row of estimates the CPE target network gives for
  the current state, with the same \<open>idxs i\<close> for all metrics; below burn-in the target is
  the reward of the metric, otherwise it is that reward plus the discount times the
  estimate gathered at that index times \<open>not_terminal i\<close>. The second part ties this to
  \<^verbatim>\<open>train\<close>: in a step with CPE enabled that returns, the index column is the one the
  primary target selector returned, and the target built from it is the one the
  optimizer step of the CPE value network is taken for.
\<close>

theorem cpe_metric_targets:
  "(target_metric_q_values env t c states vals idxs discount nd = Inr tgt \<and>
    length vals = length idxs \<and> length discount = length idxs \<and> length nd = length idxs \<and>
    (\<forall>i<length idxs. length (idxs ! i) = 1 \<and> length (nd ! i) = 1 \<and>
      length (discount ! i) = 1 \<and> length (vals ! i) = length (reward_idx_offsets c)) \<longrightarrow>
    length tgt = length idxs \<and>
    (minibatch t < reward_burnin t \<longrightarrow> tgt = vals) \<and>
    (\<forall>i<length idxs. \<forall>m<length (reward_idx_offsets c).
       0 \<le> reward_idx_offsets c ! m + idxs ! i ! 0 \<and>
       reward_idx_offsets c ! m + idxs ! i ! 0 <
         int (length (cpe_forward env (q_network_cpe_target c) states ! i)) \<and>
       tgt ! i ! m =
         (if minibatch t < reward_burnin t then vals ! i ! m
          else vals ! i ! m + discount ! i ! 0 *
            (cpe_forward env (q_network_cpe_target c) states ! i !
               nat (reward_idx_offsets c ! m + idxs ! i ! 0) * nd ! i ! 0)))) \<and>
   (train env t0 (Batch b) = Inr (t', rep) \<and> calc_cpe_in_training t0 \<longrightarrow>
    (\<exists>nq sel c0 c' mvals li lix tg.
       cpe t0 = Some c0 \<and> cpe t' = Some c' \<and>
       next_q_values env (t0\<lparr>minibatch := minibatch t0 + 1\<rparr>) b = Inr (nq, sel) \<and>
       (case metrics b of None \<Rightarrow> Inr (reward b) | Some m \<Rightarrow> cat_dim1 (reward b) m) =
         Inr mvals \<and>
       argmax_dim1 (action b) = Inr li \<and>
       bcast (+) [reward_idx_offsets c0] li = Inr lix \<and>
       target_metric_q_values env (t0\<lparr>minibatch := minibatch t0 + 1\<rparr>) c0 (state b) mvals sel
         (full_like (logged_rewards rep) (gamma t0)) (to_float (not_terminal b)) = Inr tg \<and>
       q_network_cpe c' =
         fst (cpe_backward_step env (q_network_cpe c0) (q_network_cpe_optimizer c0)
                (state b) lix tg)))"
proof (intro conjI impI)
  assume a: "target_metric_q_values env t c states vals idxs discount nd = Inr tgt \<and>
    length vals = length idxs \<and> length discount = length idxs \<and> length nd = length idxs \<and>
    (\<forall>i<length idxs. length (idxs ! i) = 1 \<and> length (nd ! i) = 1 \<and>
      length (discount ! i) = 1 \<and> length (vals ! i) = length (reward_idx_offsets c))"
  then have r: "target_metric_q_values env t c states vals idxs discount nd = Inr tgt"
    and l: "length vals = length idxs \<and> length discount = length idxs \<and>
      length nd = length idxs"
    and w: "\<forall>i<length idxs. length (idxs ! i) = 1 \<and> length (nd ! i) = 1 \<and>
      length (discount ! i) = 1 \<and> length (vals ! i) = length (reward_idx_offsets c)"
    by auto
  note e = target_metric_q_values_entries [OF r l w]
  show "length tgt = length idxs" using e by simp
  show "tgt = vals" if "minibatch t < reward_burnin t" using e that by simp
  show "\<forall>i<length idxs. \<forall>m<length (reward_idx_offsets c).
       0 \<le> reward_idx_offsets c ! m + idxs ! i ! 0 \<and>
       reward_idx_offsets c ! m + idxs ! i ! 0 <
         int (length (cpe_forward env (q_network_cpe_target c) states ! i)) \<and>
       tgt ! i ! m =
         (if minibatch t < reward_burnin t then vals ! i ! m
          else vals ! i ! m + discount ! i ! 0 *
            (cpe_forward env (q_network_cpe_target c) states ! i !
               nat (reward_idx_offsets c ! m + idxs ! i ! 0) * nd ! i ! 0))"
    using e by blast
next
  let ?t1 = "t0\<lparr>minibatch := minibatch t0 + 1\<rparr>"
  assume a: "train env t0 (Batch b) = Inr (t', rep) \<and> calc_cpe_in_training t0"
  from train_Inr [of env t0 "Batch b" t' rep] a
  obtain rewards nq sel tg0 t5 li rl mr mp midx where
    nx: "next_q_values env ?t1 b = Inr (nq, sel)"
    and q: "train_q_network env ?t1 b tg0 = Inr t5"
    and li: "argmax_dim1 (action b) = Inr li"
    and c: "calculate_cpes env t5 b (state b) li sel (full_like rewards (gamma t0))
      (to_float (not_terminal b)) = Inr (t', rl, mr, mp)"
    and r: "rep = \<lparr> td_loss = loss t', reward_loss = rl, logged_actions = li,
            logged_propensities = action_probability b, logged_rewards = rewards,
            model_propensities = mp, model_rewards = mr,
            model_values = all_action_scores t', model_action_idxs = midx \<rparr>"
    by (simp del: ex_simps) blast
  note f = train_q_network_frame [OF q]
  have e: "calc_cpe_in_training t5" using f a by simp
  from calculate_cpes_Inr [OF c e] obtain c0 mvals lix tg c' where
    c0: "cpe t5 = Some c0" "cpe t' = Some c'"
    and mv: "(case metrics b of None \<Rightarrow> Inr (reward b) | Some m \<Rightarrow> cat_dim1 (reward b) m) =
      Inr mvals"
    and lx: "bcast (+) [reward_idx_offsets c0] li = Inr lix"
    and tg: "target_metric_q_values env t5 c0 (state b) mvals sel (full_like rewards (gamma t0))
      (to_float (not_terminal b)) = Inr tg"
    and st: "q_network_cpe c' =
       fst (cpe_backward_step env (q_network_cpe c0) (q_network_cpe_optimizer c0)
              (state b) lix tg)"
    by blast
  have tg1: "target_metric_q_values env ?t1 c0 (state b) mvals sel
      (full_like (logged_rewards rep) (gamma t0)) (to_float (not_terminal b)) = Inr tg"
  proof -
    have "target_metric_q_values env ?t1 c0 (state b) mvals sel (full_like rewards (gamma t0))
        (to_float (not_terminal b)) =
      target_metric_q_values env t5 c0 (state b) mvals sel (full_like rewards (gamma t0))
        (to_float (not_terminal b))"
      by (rule target_metric_q_values_cong) (simp_all add: f)
    then show ?thesis using tg by (simp add: r)
  qed
  have "cpe t0 = Some c0" using c0 f by simp
  then show "\<exists>nq sel c0 c' mvals li lix tg.
       cpe t0 = Some c0 \<and> cpe t' = Some c' \<and>
       next_q_values env ?t1 b = Inr (nq, sel) \<and>
       (case metrics b of None \<Rightarrow> Inr (reward b) | Some m \<Rightarrow> cat_dim1 (reward b) m) =
         Inr mvals \<and>
       argmax_dim1 (action b) = Inr li \<and>
       bcast (+) [reward_idx_offsets c0] li = Inr lix \<and>
       target_metric_q_values env ?t1 c0 (state b) mvals sel
         (full_like (logged_rewards rep) (gamma t0)) (to_float (not_terminal b)) = Inr tg \<and>
       q_network_cpe c' =
         fst (cpe_backward_step env (q_network_cpe c0) (q_network_cpe_optimizer c0)
                (state b) lix tg)"
    using c0 nx mv li lx tg1 st by blast
qed


theorem cpe_metric_targets_witness:
  "target_metric_q_values example_env (example_trainer\<lparr>minibatch := 1\<rparr>) example_two_metrics
     (state example_batch) [[1, 5], [1, 5]] [[0], [1]] [[9 / 10], [9 / 10]] [[1], [0]] =
     Inr [[37 / 10, 32], [1, 5]] \<and>
   [[37 / 10, 32], [1, 5 :: real]] ! 0 ! 1 =
     5 + 9 / 10 * ([[3, 2, 1, 30, 20, 10], [3, 2, 1, 30, 20, 10]] ! 0 ! nat (3 + 0) * 1) \<and>
   [[37 / 10, 32], [1, 5 :: real]] ! 1 ! 1 =
     5 + 9 / 10 * ([[3, 2, 1, 30, 20, 10], [3, 2, 1, 30, 20, 10]] ! 1 ! nat (3 + 1) * 0) \<and>
   next_q_values example_env (example_trainer\<lparr>minibatch := 1\<rparr>) example_batch =
     Inr ([[1], [2]], [[0], [1]]) \<and>
   q_network_cpe (the (cpe example_trainer_after)) =
     fst (cpe_backward_step example_env [0, 0, 0] [] (state example_batch) [[1], [0]]
            [[37 / 10], [1]])"
proof -
  note t = cpe_metric_targets
  have q: "cpe_forward example_env (q_network_cpe_target example_two_metrics)
      (state example_batch) = [[3, 2, 1, 30, 20, 10], [3, 2, 1, 30, 20, 10]]"
    by (simp add: example_defs)
  have o: "reward_idx_offsets example_two_metrics = [0, 3]"
    by (simp add: example_defs)
  have b: "\<not> minibatch (example_trainer\<lparr>minibatch := 1\<rparr>) <
      reward_burnin (example_trainer\<lparr>minibatch := 1\<rparr>)"
    by (simp add: example_defs)
  have 1: "\<forall>i<length [[0], [1 :: int]]. \<forall>m<length [0, 3 :: int].
      [[37 / 10, 32], [1, 5 :: real]] ! i ! m =
        [[1, 5], [1, 5]] ! i ! m + [[9 / 10], [9 / 10]] ! i ! 0 *
          ([[3, 2, 1, 30, 20, 10], [3, 2, 1, 30, 20, 10]] ! i !
             nat ([0, 3] ! m + [[0], [1]] ! i ! 0) * [[1], [0]] ! i ! 0)"
    using t [where env = example_env and t = "example_trainer\<lparr>minibatch := 1\<rparr>"
        and c = example_two_metrics and states = "state example_batch"
        and vals = "[[1, 5], [1, 5]]" and idxs = "[[0], [1]]"
        and discount = "[[9 / 10], [9 / 10]]" and nd = "[[1], [0]]"
        and tgt = "[[37 / 10, 32], [1, 5]]", THEN conjunct1]
      example_target_metric_q_values b
    unfolding q o by (simp add: All_less_Suc2 less_Suc_eq_0_disj)
  have e: "train example_env example_trainer (Batch example_batch) =
      Inr (example_trainer_after, example_report) \<and> calc_cpe_in_training example_trainer"
    using example_train by (simp add: example_defs)
  have n: "next_q_values example_env (example_trainer\<lparr>minibatch := 1\<rparr>) example_batch =
      Inr ([[1], [2]], [[0], [1]])"
    by (simp add: example_defs operation_defs Let_def)
  have m: "minibatch example_trainer + 1 = 1"
    by (simp add: example_defs)
  from t [THEN conjunct2, rule_format, OF e] obtain nq sel c0 c' mvals li lix tg where
    c: "cpe example_trainer = Some c0" "cpe example_trainer_after = Some c'"
    and nx: "next_q_values example_env (example_trainer\<lparr>minibatch := 1\<rparr>) example_batch =
      Inr (nq, sel)"
    and mv: "(case metrics example_batch of None \<Rightarrow> Inr (reward example_batch)
      | Some m \<Rightarrow> cat_dim1 (reward example_batch) m) = Inr mvals"
    and li: "argmax_dim1 (action example_batch) = Inr li"
    and lx: "bcast (+) [reward_idx_offsets c0] li = Inr lix"
    and tg: "target_metric_q_values example_env (example_trainer\<lparr>minibatch := 1\<rparr>) c0
      (state example_batch) mvals sel
      (full_like (logged_rewards example_report) (gamma example_trainer))
      (to_float (not_terminal example_batch)) = Inr tg"
    and st: "q_network_cpe c' =
      fst (cpe_backward_step example_env (q_network_cpe c0) (q_network_cpe_optimizer c0)
             (state example_batch) lix tg)"
    unfolding m by blast
  have sel: "sel = [[0], [1]]" using nx n by simp
  have c0: "c0 = \<lparr> reward_network = [0, 0, 0], reward_network_optimizer = [],
         q_network_cpe = [0, 0, 0], q_network_cpe_target = [3, 2, 1],
         q_network_cpe_optimizer = [], reward_idx_offsets = [0] \<rparr>"
    using c(1) by (simp add: example_defs)
  have mvals: "mvals = [[1], [1]]" using mv by (simp add: example_defs)
  have li': "li = [[1], [0]]"
    using li by (simp add: example_defs argmax_dim1_def argmax_list_def)
  have lix: "lix = [[1], [0]]"
    using lx unfolding c0 li' by (simp add: bcast_def bcast_row_def)
  have tg': "tg = [[37 / 10], [1]]"
    using tg unfolding c0 sel mvals
    by (simp add: example_defs operation_defs Let_def)
  have 2: "q_network_cpe (the (cpe example_trainer_after)) =
     fst (cpe_backward_step example_env [0, 0, 0] [] (state example_batch) [[1], [0]]
            [[37 / 10], [1]])"
    using st c(2) unfolding c0 lix tg' by simp
  show ?thesis
    using 1 2 n example_target_metric_q_values
    by (simp add: All_less_Suc2 less_Suc_eq_0_disj)
qed

subsection \<open>The snapshot of action scores that CPE reads\<close>

text \<open>
  Claim C1, as amended. In a training step with CPE enabled, \<^verbatim>\<open>calculate_cpes\<close> runs on
  the trainer \<open>t5\<close> that the forward pass, the optimizer step and the soft update of the
  primary network leave behind, so the online parameters of \<open>t5\<close> are the updated ones.
  The snapshot \<^verbatim>\<open>self.all_action_scores\<close> it reads was taken in the forward pass of line
  139, before the optimizer step: it is the output of the primary network under the
  parameters the step started with. The reported model values are that snapshot, and
  the model propensities are its masked softmax.
\<close>

theorem cpe_reads_pre_update_snapshot:
  assumes "train env t0 (Batch b) = Inr (t', rep)" and "calc_cpe_in_training t0"
  shows "\<exists>tgt t5 li mi d nd rl mr p.
    train_q_network env (t0\<lparr>minibatch := minibatch t0 + 1\<rparr>) b tgt = Inr t5 \<and>
    q_network t5 =
      fst (q_backward_step env (q_network t0) (q_network_optimizer t0) (state b) (action b) tgt) \<and>
    q_network t' = q_network t5 \<and>
    calculate_cpes env t5 b (state b) li mi d nd = Inr (t', rl, mr, Some p) \<and>
    all_action_scores t5 = Some (q_forward env (q_network t0) (state b)) \<and>
    model_values rep = Some (q_forward env (q_network t0) (state b)) \<and>
    model_propensities rep = Some p \<and>
    masked_softmax (q_forward env (q_network t0) (state b)) (validity_mask t0 b)
      (rl_temperature t0) = Inr p"
proof -
  let ?t1 = "t0\<lparr>minibatch := minibatch t0 + 1\<rparr>"
  from train_Inr [OF assms(1)] obtain rewards tgt t5 li mi rl mr mp midx where
    q: "train_q_network env ?t1 b tgt = Inr t5"
    and c: "calculate_cpes env t5 b (state b) li mi (full_like rewards (gamma t0))
      (to_float (not_terminal b)) = Inr (t', rl, mr, mp)"
    and r: "rep = \<lparr> td_loss = loss t', reward_loss = rl, logged_actions = li,
            logged_propensities = action_probability b, logged_rewards = rewards,
            model_propensities = mp, model_rewards = mr,
            model_values = all_action_scores t', model_action_idxs = midx \<rparr>"
    by (simp del: ex_simps) blast
  have rep: "model_values rep = all_action_scores t'" "model_propensities rep = mp"
    by (simp_all add: r)
  note f = train_q_network_frame [OF q] train_q_network_target [OF q]
  have e: "calc_cpe_in_training t5"
    using f assms(2) by simp
  from calculate_cpes_enabled_Some [OF c e] obtain p where p: "mp = Some p" by blast
  from calculate_cpes_propensities [OF c [unfolded p]] f
  have m: "masked_softmax (q_forward env (q_network t0) (state b)) (validity_mask t5 b)
      (rl_temperature t0) = Inr p"
    by auto
  have v: "validity_mask t5 b = validity_mask t0 b"
    using f by (simp add: validity_mask_def)
  have s: "all_action_scores t' = Some (q_forward env (q_network t0) (state b))"
    using calculate_cpes_after_q_scores [OF q c] by simp
  have n: "q_network t' = q_network t5"
    using calculate_cpes_frame [OF c] by auto
  show ?thesis
    using q c f m s n rep unfolding p v
    by (intro exI [of _ tgt] exI [of _ t5] exI [of _ li] exI [of _ mi]
        exI [of _ "full_like rewards (gamma t0)"] exI [of _ "to_float (not_terminal b)"]
        exI [of _ rl] exI [of _ mr] exI [of _ p]) simp
qed

theorem cpe_reads_pre_update_snapshot_witness:
  "model_values example_report =
     Some (q_forward example_env (q_network example_trainer) (state example_batch)) \<and>
   model_values example_report = Some [[0, 0, 0], [0, 0, 0]] \<and>
   model_propensities example_report = Some [[1 / 2, 1 / 2, 0], [1 / 3, 1 / 3, 1 / 3]] \<and>
   masked_softmax [[0, 0, 0], [0, 0, 0]] (validity_mask example_trainer example_batch) 1 =
     Inr [[1 / 2, 1 / 2, 0], [1 / 3, 1 / 3, 1 / 3]]"
proof -
  have e: "calc_cpe_in_training example_trainer"
    by (simp add: example_defs)
  from cpe_reads_pre_update_snapshot [OF example_train e] obtain p where
    "model_values example_report =
       Some (q_forward example_env (q_network example_trainer) (state example_batch))"
    "model_propensities example_report = Some p"
    "masked_softmax (q_forward example_env (q_network example_trainer) (state example_batch))
       (validity_mask example_trainer example_batch) (rl_temperature example_trainer) = Inr p"
    by blast
  then show ?thesis
    by (simp add: example_defs)
qed

text \<open>
  Claim C1 as the spec states it fails on the example: after the step the online
  parameters are \<open>[1, 39/10, 0]\<close>, so the updated primary network scores every row of the
  current state with \<open>[1, 39/10, 0]\<close>, while the model values the step reports, and the
  propensities it derives, are those of the scores \<open>[0, 0, 0]\<close> of the parameters the step
  started with.
\<close>

theorem cpe_snapshot_counterexample:
  "train example_env example_trainer (Batch example_batch) =
     Inr (example_trainer_after, example_report) \<and>
   calc_cpe_in_training example_trainer \<and>
   q_forward example_env (q_network example_trainer_after) (state example_batch) =
     [[1, 39 / 10, 0], [1, 39 / 10, 0]] \<and>
   model_values example_report \<noteq>
     Some (q_forward example_env (q_network example_trainer_after) (state example_batch)) \<and>
   model_propensities example_report = Some [[1 / 2, 1 / 2, 0], [1 / 3, 1 / 3, 1 / 3]] \<and>
   masked_softmax
     (q_forward example_env (q_network example_trainer_after) (state example_batch))
     (validity_mask example_trainer_after example_batch)
     (rl_temperature example_trainer_after) \<noteq>
     Inr [[1 / 2, 1 / 2, 0], [1 / 3, 1 / 3, 1 / 3]]"
proof -
  have "softmax_row 1 [1, 39 / 10, 0] [1, 1, 0] \<noteq> Inr [1 / 2, 1 / 2, 0]"
  proof
    assume "softmax_row 1 [1, 39 / 10, 0] [1, 1, 0] = Inr [1 / 2, 1 / 2, 0]"
    then have "exp (1 :: real) / (exp 1 + exp (39 / 10)) = 1 / 2"
      by (simp add: softmax_row_def Let_def)
    then have "exp (1 :: real) = exp (39 / 10)"
      by (simp add: field_simps add_pos_pos)
    then show False by simp
  qed
  then have "masked_softmax [[1, 39 / 10, 0], [1, 39 / 10, 0]] [[1, 1, 0], [1, 1, 1]] 1 \<noteq>
      Inr [[1 / 2, 1 / 2, 0], [1 / 3, 1 / 3, 1 / 3]]"
    by (auto simp: masked_softmax_Inr)
  then show ?thesis
    using example_train by (simp add: example_defs validity_mask_def)
qed

subsection \<open>Reward shaping\<close>

lemma set_reward_boosts_total:
  "(\<exists>rb'. set_reward_boosts acts kvs rb = Inr rb') \<longleftrightarrow> fst ` set kvs \<subseteq> set acts"
proof (cases "set_reward_boosts acts kvs rb")
  case (Inl e)
  then show ?thesis using set_reward_boosts_Inl [of acts kvs rb e] by simp
next
  case (Inr rb')
  then show ?thesis using set_reward_boosts_Inl [of acts kvs rb ValueError] by simp
qed

lemma init_total:
  "(\<exists>t. init env base q_net q_net_target reward_net params q_cpe q_cpe_target = Inr t) \<longleftrightarrow>
   (calc_cpe_in_training base \<longrightarrow>
      reward_net \<noteq> None \<and> q_cpe \<noteq> None \<and> q_cpe_target \<noteq> None \<and>
      configured_actions params \<noteq> []) \<and>
   (\<forall>rb. rl_reward_boost params = Some rb \<longrightarrow> fst ` set rb \<subseteq> set (configured_actions params))"
proof -
  let ?acts = "configured_actions params"
  have "(\<exists>t. init env base q_net q_net_target reward_net params q_cpe q_cpe_target = Inr t) \<longleftrightarrow>
      (\<exists>c. init_cpe env base params (length ?acts) reward_net q_cpe q_cpe_target = Inr c) \<and>
      (\<exists>boosts. (case rl_reward_boost params of
         None \<Rightarrow> Inr (replicate (length ?acts) 0)
       | Some rb \<Rightarrow> set_reward_boosts ?acts rb (replicate (length ?acts) 0)) = Inr boosts)"
    unfolding init_def Let_def configured_actions_def [symmetric] ebind_eq_Inr by auto
  moreover have "(\<exists>boosts. (case rl_reward_boost params of
         None \<Rightarrow> Inr (replicate (length ?acts) 0)
       | Some rb \<Rightarrow> set_reward_boosts ?acts rb (replicate (length ?acts) 0)) = Inr boosts) \<longleftrightarrow>
      (\<forall>rb. rl_reward_boost params = Some rb \<longrightarrow> fst ` set rb \<subseteq> set ?acts)"
    by (cases "rl_reward_boost params") (simp_all add: set_reward_boosts_total)
  moreover have "(\<exists>c. init_cpe env base params (length ?acts) reward_net q_cpe q_cpe_target =
        Inr c) \<longleftrightarrow>
      (calc_cpe_in_training base \<longrightarrow>
        reward_net \<noteq> None \<and> q_cpe \<noteq> None \<and> q_cpe_target \<noteq> None \<and> ?acts \<noteq> [])"
    by (simp add: init_cpe_total)
  ultimately show ?thesis by simp
qed

text \<open>
  Claim C7. Let the configured action names be distinct, let the \<^verbatim>\<open>reward_boost\<close>
  dictionary name only configured actions, and let the CPE networks be supplied when CPE
  is enabled. Then the constructor returns a trainer whose action set is the configured
  one and whose boost vector holds, action by action, the configured boost (0 for an
  action the dictionary does not name). For every batch of samples with raw rewards \<open>rs\<close>
  whose actions are one-hot at the indices \<open>js\<close>, \<^verbatim>\<open>boost_rewards\<close> of that trainer returns,
  sample by sample, the raw reward plus the configured boost of the action taken; so the
  reward of a sample whose action has no configured boost is unchanged.
\<close>

theorem boost_rewards_one_hot:
  assumes d: "distinct (configured_actions params)" and k: "dict_keys_distinct params"
    and keys: "\<forall>rb. rl_reward_boost params = Some rb \<longrightarrow>
      fst ` set rb \<subseteq> set (configured_actions params)"
    and c: "calc_cpe_in_training base \<longrightarrow>
      reward_net \<noteq> None \<and> q_cpe \<noteq> None \<and> q_cpe_target \<noteq> None \<and>
      configured_actions params \<noteq> []"
    and l: "length rs = length js"
    and js: "\<forall>j\<in>set js. j < length (configured_actions params)"
  shows "(\<exists>t. init env base q_net q_net_target reward_net params q_cpe q_cpe_target = Inr t \<and>
      actions t = configured_actions params \<and>
      reward_boosts t = [map (configured_boost params) (configured_actions params)] \<and>
      boost_rewards t (map (\<lambda>r. [r]) rs)
        (map (one_hot (length (configured_actions params))) js) =
        Inr (map2 (\<lambda>r j. [r + configured_boost params (configured_actions params ! j)]) rs js)) \<and>
    (\<forall>a. (case rl_reward_boost params of None \<Rightarrow> True | Some rb \<Rightarrow> a \<notin> fst ` set rb) \<longrightarrow>
       configured_boost params a = 0)"
proof
  from init_total [of env base q_net q_net_target reward_net params q_cpe q_cpe_target] keys c
  obtain t where i: "init env base q_net q_net_target reward_net params q_cpe q_cpe_target = Inr t"
    by blast
  have a: "actions t = configured_actions params"
    using init_Inr [OF i] by (auto simp: configured_actions_def)
  let ?n = "length (configured_actions params)"
  from init_boosts [OF i] d k a obtain boosts where
    r: "reward_boosts t = [boosts]" and n: "length boosts = ?n"
    and b: "\<And>j. j < ?n \<Longrightarrow> boosts ! j = configured_boost params (configured_actions params ! j)"
    by auto
  have bs: "boosts = map (configured_boost params) (configured_actions params)"
    using n b by (auto intro: nth_equalityI)
  have 1: "bcast (*) (map (one_hot ?n) js) [boosts] =
      Inr (map (\<lambda>a. map2 (*) a boosts) (map (one_hot ?n) js))"
    unfolding bcast_single_right
    by (rule emap_map) (auto simp: bcast_row_same n)
  have 2: "sum_dim1 (map (\<lambda>a. map2 (*) a boosts) (map (one_hot ?n) js)) =
      map (\<lambda>j. [configured_boost params (configured_actions params ! j)]) js"
    using js inner_product_one_hot [OF _ n] b
    by (auto simp: sum_dim1_def inner_product_def)
  have 3: "bcast (+) (map (\<lambda>r. [r]) rs)
        (map (\<lambda>j. [configured_boost params (configured_actions params ! j)]) js) =
      Inr (map (\<lambda>i. [rs ! i + configured_boost params (configured_actions params ! (js ! i))])
             [0..<length rs])"
    using l bcast_cols [of "map (\<lambda>r. [r]) rs"
        "map (\<lambda>j. [configured_boost params (configured_actions params ! j)]) js" "(+)"]
    by simp
  have 4: "map (\<lambda>i. [rs ! i + configured_boost params (configured_actions params ! (js ! i))])
        [0..<length rs] =
      map2 (\<lambda>r j. [r + configured_boost params (configured_actions params ! j)]) rs js"
    using l by (auto intro: nth_equalityI)
  have 5: "boost_rewards t (map (\<lambda>r. [r]) rs) (map (one_hot ?n) js) =
      Inr (map2 (\<lambda>r j. [r + configured_boost params (configured_actions params ! j)]) rs js)"
    by (simp only: boost_rewards_def r 1 ebind_Inr 2 3 4)
  show "\<exists>t. init env base q_net q_net_target reward_net params q_cpe q_cpe_target = Inr t \<and>
      actions t = configured_actions params \<and>
      reward_boosts t = [map (configured_boost params) (configured_actions params)] \<and>
      boost_rewards t (map (\<lambda>r. [r]) rs)
        (map (one_hot (length (configured_actions params))) js) =
        Inr (map2 (\<lambda>r j. [r + configured_boost params (configured_actions params ! j)]) rs js)"
    using i a r bs 5 by blast
next
  show "\<forall>a. (case rl_reward_boost params of None \<Rightarrow> True | Some rb \<Rightarrow> a \<notin> fst ` set rb) \<longrightarrow>
       configured_boost params a = 0"
    by (auto simp: configured_boost_def split: option.splits dest: map_of_SomeD intro: rev_image_eqI)
qed

theorem boost_rewards_one_hot_witness:
  "init example_env example_base [0, 0, 0] [1, 2, 3] (Some [0, 0, 0]) example_parameters
     (Some [0, 0, 0]) (Some [3, 2, 1]) = Inr example_trainer \<and>
   actions example_trainer = [''A'', ''B'', ''C''] \<and>
   reward_boosts example_trainer = [[0, 2, 0]] \<and>
   boost_rewards example_trainer [[1], [1], [1]] [[0, 1, 0], [1, 0, 0], [0, 0, 1]] =
     Inr [[3], [1], [1]]"
proof -
  have h: "distinct (configured_actions example_parameters)"
    "dict_keys_distinct example_parameters"
    "\<forall>rb. rl_reward_boost example_parameters = Some rb \<longrightarrow>
      fst ` set rb \<subseteq> set (configured_actions example_parameters)"
    "calc_cpe_in_training example_base \<longrightarrow>
      Some [0, 0, 0 :: real] \<noteq> None \<and> Some [0, 0, 0 :: real] \<noteq> None \<and>
      Some [3, 2, 1 :: real] \<noteq> None \<and> configured_actions example_parameters \<noteq> []"
    "length [1, 1, 1 :: real] = length [1, 0, 2 :: nat]"
    "\<forall>j\<in>set [1, 0, 2 :: nat]. j < length (configured_actions example_parameters)"
    by (simp_all add: example_parameters_def configured_actions_def dict_keys_distinct_def)
  from boost_rewards_one_hot [OF h, of example_env "[0, 0, 0]" "[1, 2, 3]", THEN conjunct1]
  obtain t where
    "init example_env example_base [0, 0, 0] [1, 2, 3] (Some [0, 0, 0]) example_parameters
       (Some [0, 0, 0]) (Some [3, 2, 1]) = Inr t"
    "actions t = configured_actions example_parameters"
    "reward_boosts t =
       [map (configured_boost example_parameters) (configured_actions example_parameters)]"
    "boost_rewards t (map (\<lambda>r. [r]) [1, 1, 1])
        (map (one_hot (length (configured_actions example_parameters))) [1, 0, 2]) =
      Inr (map2 (\<lambda>r j. [r + configured_boost example_parameters
                           (configured_actions example_parameters ! j)]) [1, 1, 1] [1, 0, 2])"
    by blast
  then show ?thesis
    using example_init
    by (simp add: example_parameters_def configured_actions_def configured_boost_def
        one_hot_def)
qed

end
